theory Spec2Isabelle
  imports Complex_Main "HOL-Library.Sublist" "HOL-Library.AList"
begin

unbundle bit_operations_syntax

section \<open>Runtime primitives used by the library\<close>

text \<open>
  JavaScript strings are modelled by \<^typ>\<open>string\<close>, read as the UTF-8 byte sequence of the
  text, so that \<^verbatim>\<open>Buffer.from(s, 'utf8')\<close> is the list of the character codes. A
  \<^verbatim>\<open>Buffer\<close> is a list of byte values (naturals below 256).
\<close>

type_synonym bytes = "nat list"

definition utf8 :: "string \<Rightarrow> bytes" where
  "utf8 s = map of_char s"

subsection \<open>Hexadecimal encoding\<close>

definition hexval :: "char \<Rightarrow> nat option" where
  "hexval c = map_of
     [(CHR ''0'', 0), (CHR ''1'', 1), (CHR ''2'', 2), (CHR ''3'', 3), (CHR ''4'', 4),
      (CHR ''5'', 5), (CHR ''6'', 6), (CHR ''7'', 7), (CHR ''8'', 8), (CHR ''9'', 9),
      (CHR ''a'', 10), (CHR ''b'', 11), (CHR ''c'', 12), (CHR ''d'', 13), (CHR ''e'', 14),
      (CHR ''f'', 15),
      (CHR ''A'', 10), (CHR ''B'', 11), (CHR ''C'', 12), (CHR ''D'', 13), (CHR ''E'', 14),
      (CHR ''F'', 15)] c"

text \<open>\<^verbatim>\<open>Buffer.from(s, 'hex')\<close>: pairs of hex digits, truncated at the first pair that is
  not two hex digits and at a trailing single character.\<close>

fun hex_decode :: "string \<Rightarrow> bytes" where
  "hex_decode (a # b # r) =
     (case hexval a of
        None \<Rightarrow> []
      | Some x \<Rightarrow> (case hexval b of None \<Rightarrow> [] | Some y \<Rightarrow> (16 * x + y) # hex_decode r))"
| "hex_decode _ = []"

definition hexdigit :: "nat \<Rightarrow> char" where
  "hexdigit n = ''0123456789abcdef'' ! (n mod 16)"

text \<open>\<^verbatim>\<open>digest('hex')\<close>: two lower-case digits per byte.\<close>

definition hex_encode :: "bytes \<Rightarrow> string" where
  "hex_encode bs = concat (map (\<lambda>b. [hexdigit (b div 16), hexdigit b]) bs)"

text \<open>The regular expression \<^verbatim>\<open>/^[0-9a-f]{64}$/i\<close>.\<close>

definition is_hex64 :: "string \<Rightarrow> bool" where
  "is_hex64 s \<longleftrightarrow> length s = 64 \<and> list_all (\<lambda>c. hexval c \<noteq> None) s"

text \<open>The same expression without the \<^verbatim>\<open>i\<close> flag: \<^verbatim>\<open>^[0-9a-f]{64}$\<close>.\<close>

definition is_lower_hex64 :: "string \<Rightarrow> bool" where
  "is_lower_hex64 s \<longleftrightarrow> length s = 64 \<and> list_all (\<lambda>c. c \<in> set ''0123456789abcdef'') s"

subsection \<open>SHA-256 (FIPS 180-4) and HMAC (RFC 2104), as provided by \<^verbatim>\<open>crypto\<close>\<close>

text \<open>32-bit words are naturals below \<open>2 ^ 32\<close>; the wrap-around is written out.\<close>

definition add32 :: "nat \<Rightarrow> nat \<Rightarrow> nat" where
  "add32 a b = (a + b) mod 4294967296"

definition rotr :: "nat \<Rightarrow> nat \<Rightarrow> nat" where
  "rotr n x = x div 2 ^ n + (x mod 2 ^ n) * 2 ^ (32 - n)"

definition shr :: "nat \<Rightarrow> nat \<Rightarrow> nat" where
  "shr n x = x div 2 ^ n"

definition ssig0 :: "nat \<Rightarrow> nat" where
  "ssig0 x = rotr 7 x XOR rotr 18 x XOR shr 3 x"

definition ssig1 :: "nat \<Rightarrow> nat" where
  "ssig1 x = rotr 17 x XOR rotr 19 x XOR shr 10 x"

definition bsig0 :: "nat \<Rightarrow> nat" where
  "bsig0 x = rotr 2 x XOR rotr 13 x XOR rotr 22 x"

definition bsig1 :: "nat \<Rightarrow> nat" where
  "bsig1 x = rotr 6 x XOR rotr 11 x XOR rotr 25 x"

definition ch :: "nat \<Rightarrow> nat \<Rightarrow> nat \<Rightarrow> nat" where
  "ch x y z = (x AND y) XOR ((4294967295 - x) AND z)"

definition maj :: "nat \<Rightarrow> nat \<Rightarrow> nat \<Rightarrow> nat" where
  "maj x y z = (x AND y) XOR (x AND z) XOR (y AND z)"

definition sha_K :: "nat list" where
  "sha_K =
    [1116352408, 1899447441, 3049323471, 3921009573, 961987163, 1508970993,
     2453635748, 2870763221, 3624381080, 310598401, 607225278, 1426881987,
     1925078388, 2162078206, 2614888103, 3248222580, 3835390401, 4022224774,
     264347078, 604807628, 770255983, 1249150122, 1555081692, 1996064986,
     2554220882, 2821834349, 2952996808, 3210313671, 3336571891, 3584528711,
     113926993, 338241895, 666307205, 773529912, 1294757372, 1396182291,
     1695183700, 1986661051, 2177026350, 2456956037, 2730485921, 2820302411,
     3259730800, 3345764771, 3516065817, 3600352804, 4094571909, 275423344,
     430227734, 506948616, 659060556, 883997877, 958139571, 1322822218,
     1537002063, 1747873779, 1955562222, 2024104815, 2227730452, 2361852424,
     2428436474, 2756734187, 3204031479, 3329325298]"

type_synonym sha_state = "nat \<times> nat \<times> nat \<times> nat \<times> nat \<times> nat \<times> nat \<times> nat"

definition sha_H0 :: sha_state where
  "sha_H0 =
     (1779033703, 3144134277, 1013904242, 2773480762,
      1359893119, 2600822924, 528734635, 1541459225)"

text \<open>Big-endian words of a block.\<close>

fun be32 :: "bytes \<Rightarrow> nat list" where
  "be32 (a # b # c # d # r) = (16777216 * a + 65536 * b + 256 * c + d) # be32 r"
| "be32 _ = []"

text \<open>The message schedule is kept as a sliding window of the sixteen most recent words:
  the head is \<open>W\<^sub>t\<close>, and the word appended is \<open>W\<^sub>t\<^sub>+\<^sub>1\<^sub>6\<close>.\<close>

definition next_w :: "nat list \<Rightarrow> nat" where
  "next_w ws = add32 (add32 (ssig1 (ws ! 14)) (ws ! 9)) (add32 (ssig0 (ws ! 1)) (ws ! 0))"

fun sha_round2 :: "nat \<Rightarrow> nat \<Rightarrow> sha_state \<Rightarrow> sha_state" where
  "sha_round2 t1 t2 (a, b, c, d, e, f, g, h) = (add32 t1 t2, a, b, c, add32 d t1, e, f, g)"

fun sha_round :: "nat \<Rightarrow> nat \<Rightarrow> sha_state \<Rightarrow> sha_state" where
  "sha_round k w (a, b, c, d, e, f, g, h) =
     sha_round2 (add32 (add32 (add32 (add32 h (bsig1 e)) (ch e f g)) k) w)
                (add32 (bsig0 a) (maj a b c)) (a, b, c, d, e, f, g, h)"

fun sha_add :: "sha_state \<Rightarrow> sha_state \<Rightarrow> sha_state" where
  "sha_add (a, b, c, d, e, f, g, h) (a', b', c', d', e', f', g', h') =
     (add32 a a', add32 b b', add32 c c', add32 d d',
      add32 e e', add32 f f', add32 g g', add32 h h')"

fun rounds :: "nat list \<Rightarrow> nat list \<Rightarrow> sha_state \<Rightarrow> sha_state" where
  "rounds [] ws s = s"
| "rounds (k # ks) ws s = rounds ks (tl ws @ [next_w ws]) (sha_round k (hd ws) s)"

definition compress :: "sha_state \<Rightarrow> bytes \<Rightarrow> sha_state" where
  "compress hs blk = sha_add hs (rounds sha_K (be32 blk) hs)"

function chunks :: "bytes \<Rightarrow> sha_state \<Rightarrow> sha_state" where
  "chunks bs hs =
     (if length bs < 64 then hs else chunks (drop 64 bs) (compress hs (take 64 bs)))"
  by pat_completeness auto
termination
  by (relation "measure (\<lambda>(bs, hs). length bs)") auto

text \<open>Big-endian bytes of a 32-bit word and of a 64-bit length.\<close>

definition word_bytes :: "nat \<Rightarrow> bytes" where
  "word_bytes v = [v div 16777216 mod 256, v div 65536 mod 256, v div 256 mod 256, v mod 256]"

definition length_bytes :: "nat \<Rightarrow> bytes" where
  "length_bytes v = word_bytes (v div 4294967296) @ word_bytes (v mod 4294967296)"

definition pad :: "bytes \<Rightarrow> bytes" where
  "pad m = m @ [128] @ replicate ((119 - length m mod 64) mod 64) 0 @ length_bytes (8 * length m)"

fun sha_out :: "sha_state \<Rightarrow> bytes" where
  "sha_out (a, b, c, d, e, f, g, h) = concat (map word_bytes [a, b, c, d, e, f, g, h])"

definition sha256 :: "bytes \<Rightarrow> bytes" where
  "sha256 m = sha_out (chunks (pad m) sha_H0)"

definition xor_pad :: "nat \<Rightarrow> bytes \<Rightarrow> bytes" where
  "xor_pad p k = map (\<lambda>b. b XOR p) (k @ replicate (64 - length k) 0)"

definition hmac_sha256 :: "bytes \<Rightarrow> bytes \<Rightarrow> bytes" where
  "hmac_sha256 key msg =
     (let k = (if length key > 64 then sha256 key else key)
      in sha256 (xor_pad 92 k @ sha256 (xor_pad 54 k @ msg)))"

section \<open>JavaScript values and string helpers\<close>

text \<open>Values of dynamically typed positions (caveat options, decoded JSON). Numbers in these
  positions are integers.\<close>

datatype jsval =
    JUndefined
  | JNull
  | JBool bool
  | JNum int
  | JStr string
  | JArr "jsval list"
  | JObj "(string \<times> jsval) list"

datatype js_error = TypeError

fun truthy :: "jsval \<Rightarrow> bool" where
  "truthy JUndefined = False"
| "truthy JNull = False"
| "truthy (JBool b) = b"
| "truthy (JNum n) = (n \<noteq> 0)"
| "truthy (JStr s) = (s \<noteq> [])"
| "truthy (JArr xs) = True"
| "truthy (JObj kvs) = True"

text \<open>Truthiness of an optional string (\<open>None\<close> is \<^verbatim>\<open>undefined\<close>).\<close>

fun truthy_str :: "string option \<Rightarrow> bool" where
  "truthy_str None = False"
| "truthy_str (Some s) = (s \<noteq> [])"

definition digit_char :: "nat \<Rightarrow> char" where
  "digit_char n = ''0123456789'' ! (n mod 10)"

function nat_digits :: "nat \<Rightarrow> string" where
  "nat_digits n = (if n < 10 then [digit_char n] else nat_digits (n div 10) @ [digit_char n])"
  by pat_completeness auto
termination
  by (relation "measure id") auto

definition show_int :: "int \<Rightarrow> string" where
  "show_int i = (if i < 0 then CHR ''-'' # nat_digits (nat (- i)) else nat_digits (nat i))"

text \<open>String conversion as performed by a template literal.\<close>

fun js_to_string :: "jsval \<Rightarrow> string" and js_join :: "jsval list \<Rightarrow> string" where
  "js_to_string JUndefined = ''undefined''"
| "js_to_string JNull = ''null''"
| "js_to_string (JBool b) = (if b then ''true'' else ''false'')"
| "js_to_string (JNum n) = show_int n"
| "js_to_string (JStr s) = s"
| "js_to_string (JArr xs) = js_join xs"
| "js_to_string (JObj kvs) = ''[object Object]''"
| "js_join [] = []"
| "js_join (x # xs) =
     (if x = JUndefined \<or> x = JNull then [] else js_to_string x) @
     (if xs = [] then [] else CHR '','' # js_join xs)"

text \<open>\<^verbatim>\<open>s.split(sep)\<close> for a non-empty separator: the counter skips the rest of a
  separator that has just been matched.\<close>

fun split_aux :: "string \<Rightarrow> nat \<Rightarrow> string \<Rightarrow> string \<Rightarrow> string list" where
  "split_aux sep n acc [] = [rev acc]"
| "split_aux sep (Suc n) acc (c # cs) = split_aux sep n acc cs"
| "split_aux sep 0 acc (c # cs) =
     (if prefix sep (c # cs) then rev acc # split_aux sep (length sep - 1) [] cs
      else split_aux sep 0 (c # acc) cs)"

definition js_split :: "string \<Rightarrow> string \<Rightarrow> string list" where
  "js_split sep s = (if sep = [] then map (\<lambda>c. [c]) s else split_aux sep 0 [] s)"

text \<open>The white space of \<^verbatim>\<open>parseInt\<close> and of \<^verbatim>\<open>\s\<close> in a regular expression, in UTF-8: the
  ASCII characters tab, line feed, vertical tab, form feed, carriage return and space, and
  U+00A0, U+1680, U+2000 to U+200A, U+2028, U+2029, U+202F, U+205F, U+3000 and U+FEFF.\<close>

definition js_whitespace :: "string list" where
  "js_whitespace =
     [[CHR 0x09], [CHR 0x0A], [CHR 0x0B], [CHR 0x0C], [CHR 0x0D], [CHR 0x20],
      [CHR 0xC2, CHR 0xA0], [CHR 0xE1, CHR 0x9A, CHR 0x80],
      [CHR 0xE2, CHR 0x80, CHR 0x80], [CHR 0xE2, CHR 0x80, CHR 0x81],
      [CHR 0xE2, CHR 0x80, CHR 0x82], [CHR 0xE2, CHR 0x80, CHR 0x83],
      [CHR 0xE2, CHR 0x80, CHR 0x84], [CHR 0xE2, CHR 0x80, CHR 0x85],
      [CHR 0xE2, CHR 0x80, CHR 0x86], [CHR 0xE2, CHR 0x80, CHR 0x87],
      [CHR 0xE2, CHR 0x80, CHR 0x88], [CHR 0xE2, CHR 0x80, CHR 0x89],
      [CHR 0xE2, CHR 0x80, CHR 0x8A], [CHR 0xE2, CHR 0x80, CHR 0xA8],
      [CHR 0xE2, CHR 0x80, CHR 0xA9], [CHR 0xE2, CHR 0x80, CHR 0xAF],
      [CHR 0xE2, CHR 0x81, CHR 0x9F], [CHR 0xE3, CHR 0x80, CHR 0x80],
      [CHR 0xEF, CHR 0xBB, CHR 0xBF]]"

text \<open>The number of bytes of the white-space character at the head of a string, 0 when
  there is none.\<close>

definition ws_len :: "string \<Rightarrow> nat" where
  "ws_len s = (case find (\<lambda>w. prefix w s) js_whitespace of None \<Rightarrow> 0 | Some w \<Rightarrow> min (length w) (length s))"

function skip_ws :: "string \<Rightarrow> string" where
  "skip_ws s = (if ws_len s = 0 then s else skip_ws (drop (ws_len s) s))"
  by pat_completeness auto
termination
  by (relation "measure length") (auto simp: ws_len_def split: option.splits)

definition digit_val :: "char \<Rightarrow> nat option" where
  "digit_val c = map_of
     [(CHR ''0'', 0), (CHR ''1'', 1), (CHR ''2'', 2), (CHR ''3'', 3), (CHR ''4'', 4),
      (CHR ''5'', 5), (CHR ''6'', 6), (CHR ''7'', 7), (CHR ''8'', 8), (CHR ''9'', 9)] c"

text \<open>\<^verbatim>\<open>parseInt(s, 10)\<close>; \<open>None\<close> is \<^verbatim>\<open>NaN\<close>.\<close>

definition parse_digits :: "string \<Rightarrow> int option" where
  "parse_digits s =
     (let ds = takeWhile (\<lambda>c. digit_val c \<noteq> None) s
      in if ds = [] then None
         else Some (int (foldl (\<lambda>a c. 10 * a + the (digit_val c)) 0 ds)))"

definition parseInt :: "string \<Rightarrow> int option" where
  "parseInt s =
     (case skip_ws s of
        [] \<Rightarrow> None
      | c # r \<Rightarrow>
          if c = CHR ''-'' then map_option uminus (parse_digits r)
          else if c = CHR ''+'' then parse_digits r
          else parse_digits (c # r))"

text \<open>\<^verbatim>\<open>toUpperCase\<close> on the ASCII letters.\<close>

definition upper_char :: "char \<Rightarrow> char" where
  "upper_char c =
     (case map_of (zip ''abcdefghijklmnopqrstuvwxyz'' ''ABCDEFGHIJKLMNOPQRSTUVWXYZ'') c of
        None \<Rightarrow> c
      | Some u \<Rightarrow> u)"

definition toUpperCase :: "string \<Rightarrow> string" where
  "toUpperCase s = map upper_char s"

section \<open>Macaroons (\<^verbatim>\<open>lib/macaroon.cjs\<close>)\<close>

record macaroon =
  mac_id :: string
  mac_caveats :: "string list"
  mac_signature :: string

text \<open>The caveat options of \<^verbatim>\<open>createMacaroon\<close>; an absent key is \<^const>\<open>JUndefined\<close>.\<close>

record caveat_opts =
  expiresAt :: jsval
  endpoint :: jsval
  method_opt :: jsval
  contextId :: jsval
  agentId :: jsval
  maxActions :: jsval

text \<open>The request context of \<^verbatim>\<open>verifyMacaroon\<close>.\<close>

record verify_ctx =
  ctx_endpoint :: "string option"
  ctx_method :: "string option"
  ctx_contextId :: "string option"
  ctx_agentId :: "string option"

datatype vresult = Valid | Invalid string

text \<open>The key buffer of the \<^verbatim>\<open>hmac\<close> helper.\<close>

definition hmac_key :: "string \<Rightarrow> bytes" where
  "hmac_key key = (if is_hex64 key then hex_decode key else utf8 key)"

definition hmac :: "string \<Rightarrow> string \<Rightarrow> string" where
  "hmac key data = hex_encode (hmac_sha256 (hmac_key key) (utf8 data))"

definition caveat_string :: "string \<Rightarrow> jsval \<Rightarrow> string list" where
  "caveat_string key v = (if truthy v then [key @ '' = '' @ js_to_string v] else [])"

definition caveatStrings :: "caveat_opts \<Rightarrow> string list" where
  "caveatStrings c =
     caveat_string ''expires_at'' (expiresAt c) @
     caveat_string ''endpoint'' (endpoint c) @
     caveat_string ''method'' (method_opt c) @
     caveat_string ''context'' (contextId c) @
     caveat_string ''agent'' (agentId c) @
     caveat_string ''max_actions'' (maxActions c)"

text \<open>The chained signature: \<^verbatim>\<open>let sig = hmac(secret, id); for (c of caveats) sig = hmac(sig, c)\<close>.\<close>

definition chain_sig :: "string \<Rightarrow> string \<Rightarrow> string list \<Rightarrow> string" where
  "chain_sig secret ident cs = fold (\<lambda>caveat sig. hmac sig caveat) cs (hmac secret ident)"

definition createMacaroon :: "string \<Rightarrow> string \<Rightarrow> caveat_opts \<Rightarrow> macaroon" where
  "createMacaroon secret paymentHash c =
     \<lparr>mac_id = paymentHash,
      mac_caveats = caveatStrings c,
      mac_signature = chain_sig secret paymentHash (caveatStrings c)\<rparr>"

text \<open>\<^verbatim>\<open>const [key, value] = caveat.split(' = ', 2)\<close>.\<close>

definition caveat_key :: "string \<Rightarrow> string" where
  "caveat_key caveat = hd (js_split '' = '' caveat)"

definition caveat_value :: "string \<Rightarrow> string option" where
  "caveat_value caveat =
     (case js_split '' = '' caveat of k # v # r \<Rightarrow> Some v | _ \<Rightarrow> None)"

text \<open>The template literal \<^verbatim>\<open>${value}\<close> of an error message.\<close>

fun show_value :: "string option \<Rightarrow> string" where
  "show_value None = ''undefined''"
| "show_value (Some v) = v"

text \<open>One iteration of the caveat loop; \<open>now\<close> is \<^verbatim>\<open>Date.now()\<close> in milliseconds. The result
  \<open>Inr Valid\<close> stands for \<^verbatim>\<open>break\<close>, \<open>Inl TypeError\<close> for the exception of
  \<^verbatim>\<open>value.toUpperCase()\<close> on a caveat without a value.\<close>

definition check_caveat :: "verify_ctx \<Rightarrow> int \<Rightarrow> string \<Rightarrow> js_error + vresult" where
  "check_caveat ctx now caveat =
     (let key = caveat_key caveat; v = caveat_value caveat in
      if key = ''expires_at'' then
        (case (case v of None \<Rightarrow> None | Some t \<Rightarrow> parseInt t) of
           None \<Rightarrow> Inr Valid
         | Some e \<Rightarrow>
             if (of_int now :: rat) / 1000 > of_int e then Inr (Invalid ''Macaroon expired'')
             else Inr Valid)
      else if key = ''endpoint'' then
        (if truthy_str (ctx_endpoint ctx) \<and> ctx_endpoint ctx \<noteq> v
         then Inr (Invalid (''Endpoint mismatch: expected '' @ show_value v))
         else Inr Valid)
      else if key = ''method'' then
        (if truthy_str (ctx_method ctx) then
           (case v of
              None \<Rightarrow> Inl TypeError
            | Some t \<Rightarrow>
                if toUpperCase (the (ctx_method ctx)) \<noteq> toUpperCase t
                then Inr (Invalid (''Method mismatch: expected '' @ t))
                else Inr Valid)
         else Inr Valid)
      else if key = ''context'' then
        (if truthy_str (ctx_contextId ctx) \<and> ctx_contextId ctx \<noteq> v
         then Inr (Invalid (''Context mismatch: expected '' @ show_value v))
         else Inr Valid)
      else if key = ''agent'' then
        (if truthy_str (ctx_agentId ctx) \<and> ctx_agentId ctx \<noteq> v
         then Inr (Invalid (''Agent mismatch: expected '' @ show_value v))
         else Inr Valid)
      else Inr Valid)"

fun check_caveats :: "verify_ctx \<Rightarrow> int \<Rightarrow> string list \<Rightarrow> js_error + vresult" where
  "check_caveats ctx now [] = Inr Valid"
| "check_caveats ctx now (c # cs) =
     (case check_caveat ctx now c of
        Inr Valid \<Rightarrow> check_caveats ctx now cs
      | r \<Rightarrow> r)"

definition verifyMacaroon ::
  "string \<Rightarrow> macaroon \<Rightarrow> verify_ctx \<Rightarrow> int \<Rightarrow> js_error + vresult" where
  "verifyMacaroon secret m ctx now =
     (if chain_sig secret (mac_id m) (mac_caveats m) \<noteq> mac_signature m
      then Inr (Invalid ''Invalid signature'')
      else check_caveats ctx now (mac_caveats m))"

section \<open>Pricing engine (\<^verbatim>\<open>lib/pricing.cjs\<close>)\<close>

text \<open>Prices and configuration numbers are modelled by exact rationals, timestamps
  (\<^verbatim>\<open>Date.now()\<close>, milliseconds) by integers. One invocation reads one clock value.\<close>

record trust_discount =
  td_enabled :: bool
  freeAbove :: rat
  discountAbove :: rat
  discountPercent :: rat

record cooldown_cfg =
  cd_enabled :: bool
  windowMs :: rat
  bonusPercent :: rat

record pricing_config =
  baseSats :: rat
  progressiveMultiplier :: rat
  progressiveCap :: rat
  trustDiscount :: trust_discount
  cooldown :: cooldown_cfg

definition DEFAULT_PRICING :: pricing_config where
  "DEFAULT_PRICING =
     \<lparr>baseSats = 1,
      progressiveMultiplier = 3 / 2,
      progressiveCap = 50,
      trustDiscount =
        \<lparr>td_enabled = True, freeAbove = 80, discountAbove = 30, discountPercent = 50\<rparr>,
      cooldown = \<lparr>cd_enabled = True, windowMs = 60000, bonusPercent = 25\<rparr>\<rparr>"

text \<open>The two \<^verbatim>\<open>Map\<close>s of the engine, as association lists in insertion order: context key to
  the list of \<open>(agent, timestamp)\<close> entries, and agent to the time of its last action.\<close>

record engine =
  activity :: "(string \<times> (string \<times> int) list) list"
  agentLastAction :: "(string \<times> int) list"

definition new_engine :: engine where
  "new_engine = \<lparr>activity = [], agentLastAction = []\<rparr>"

record breakdown =
  bd_base :: rat
  bd_progressive :: rat
  bd_priorActionsInContext :: nat
  bd_trustScore :: "rat option"
  bd_trustDiscount :: "rat option"
  bd_cooldownBonus :: "rat option"
  bd_final :: rat

record price_result =
  sats :: rat
  pr_breakdown :: breakdown

text \<open>\<^verbatim>\<open>(this._activity.get(key) || []).filter(a => a.agent === agentId).length\<close>.\<close>

definition actions_of :: "engine \<Rightarrow> string \<Rightarrow> string \<Rightarrow> nat" where
  "actions_of st agent key =
     length (filter (\<lambda>a. fst a = agent)
       (case map_of (activity st) key of None \<Rightarrow> [] | Some l \<Rightarrow> l))"

text \<open>The progressive cost, computed exactly. The code computes \<^verbatim>\<open>Math.pow\<close> and the product
  in IEEE doubles, with the same result where the power and the product are values of
  doubles.\<close>

definition progressiveCost :: "pricing_config \<Rightarrow> nat \<Rightarrow> rat" where
  "progressiveCost cfg k =
     (if k > 0
      then min (of_int \<lceil>baseSats cfg * progressiveMultiplier cfg ^ k\<rceil>) (progressiveCap cfg)
      else baseSats cfg)"

text \<open>The trust branch: the new price and the recorded discount.\<close>

definition trust_step :: "trust_discount \<Rightarrow> rat option \<Rightarrow> rat \<Rightarrow> rat \<times> rat option" where
  "trust_step td trustScore price =
     (case trustScore of
        None \<Rightarrow> (price, None)
      | Some t \<Rightarrow>
          if \<not> td_enabled td then (price, None)
          else if t \<ge> freeAbove td then (0, Some price)
          else if t \<ge> discountAbove td then
            (let discount = of_int \<lfloor>price * discountPercent td / 100\<rfloor>
             in (max 1 (price - discount), Some discount))
          else (price, Some 0))"

text \<open>The cooldown branch; \<^verbatim>\<open>if (lastAction)\<close> is false for a missing entry and for the
  timestamp 0.\<close>

definition cooldown_step ::
  "cooldown_cfg \<Rightarrow> int option \<Rightarrow> int \<Rightarrow> rat \<Rightarrow> rat \<times> rat option" where
  "cooldown_step cd lastAction now price =
     (if cd_enabled cd \<and> price > 0 then
        (let bonus = of_int \<lfloor>price * bonusPercent cd / 100\<rfloor> in
         case lastAction of
           None \<Rightarrow> (max 1 (price - bonus), Some bonus)
         | Some t \<Rightarrow>
             if t = 0 then (max 1 (price - bonus), Some bonus)
             else if of_int (now - t) > windowMs cd then (max 1 (price - bonus), Some bonus)
             else (price, Some 0))
      else (price, None))"

definition record_action :: "engine \<Rightarrow> string \<Rightarrow> string \<Rightarrow> int \<Rightarrow> engine" where
  "record_action st agent key now =
     \<lparr>activity =
        AList.update key
          ((case map_of (activity st) key of None \<Rightarrow> [] | Some l \<Rightarrow> l) @ [(agent, now)])
          (activity st),
      agentLastAction = AList.update agent now (agentLastAction st)\<rparr>"

definition calculate ::
  "pricing_config \<Rightarrow> engine \<Rightarrow> string \<Rightarrow> string \<Rightarrow> rat option \<Rightarrow> bool \<Rightarrow> int
     \<Rightarrow> price_result \<times> engine" where
  "calculate cfg st agent context trustScore dryRun now =
     (let k = actions_of st agent context;
          progressive = progressiveCost cfg k;
          (p1, tdisc) = trust_step (trustDiscount cfg) trustScore progressive;
          (p2, bonus) = cooldown_step (cooldown cfg) (map_of (agentLastAction st) agent) now p1
      in (\<lparr>sats = p2,
           pr_breakdown =
             \<lparr>bd_base = baseSats cfg,
              bd_progressive = progressive,
              bd_priorActionsInContext = k,
              bd_trustScore = (if td_enabled (trustDiscount cfg) then trustScore else None),
              bd_trustDiscount = tdisc,
              bd_cooldownBonus = bonus,
              bd_final = p2\<rparr>\<rparr>,
          if dryRun then st else record_action st agent context now))"

definition getActivityCount :: "engine \<Rightarrow> string \<Rightarrow> string \<Rightarrow> nat" where
  "getActivityCount st agent context = actions_of st agent context"

record pricing_stats =
  st_contexts :: nat
  st_agents :: nat
  st_totalActions :: nat

definition stats :: "engine \<Rightarrow> pricing_stats" where
  "stats st =
     \<lparr>st_contexts = length (activity st),
      st_agents = length (agentLastAction st),
      st_totalActions = sum_list (map (\<lambda>e. length (snd e)) (activity st))\<rparr>"

text \<open>A call of \<^verbatim>\<open>calculate\<close> and a sequence of calls on one engine.\<close>

record call =
  c_agent :: string
  c_context :: string
  c_trust :: "rat option"
  c_dryRun :: bool
  c_now :: int

fun run :: "pricing_config \<Rightarrow> engine \<Rightarrow> call list \<Rightarrow> price_result list" where
  "run cfg st [] = []"
| "run cfg st (c # cs) =
     (case calculate cfg st (c_agent c) (c_context c) (c_trust c) (c_dryRun c) (c_now c) of
        (r, st') \<Rightarrow> r # run cfg st' cs)"

section \<open>Wallet (\<^verbatim>\<open>lib/wallet.cjs\<close>)\<close>

definition verifyPreimage :: "string \<Rightarrow> string \<Rightarrow> bool" where
  "verifyPreimage preimage paymentHash \<longleftrightarrow>
     hex_encode (sha256 (hex_decode preimage)) = paymentHash"

section \<open>Trust resolver (\<^verbatim>\<open>lib/trust.cjs\<close>)\<close>

text \<open>Scores are real numbers here, because of the exponential decay.\<close>

record nostr_event =
  ev_pubkey :: string
  ev_created_at :: int
  ev_tags :: "string list list"

definition ATTESTATION_WEIGHTS :: "(string \<times> real) list" where
  "ATTESTATION_WEIGHTS =
     [(''service-quality'', 3 / 2), (''identity-continuity'', 1),
      (''general-trust'', 4 / 5), (''work-completed'', 6 / 5)]"

definition nth_opt :: "'a list \<Rightarrow> nat \<Rightarrow> 'a option" where
  "nth_opt xs i = (if i < length xs then Some (xs ! i) else None)"

definition attestation_weight :: "nostr_event \<Rightarrow> real" where
  "attestation_weight ev =
     (let ty = (case find (\<lambda>t. nth_opt t 0 = Some ''l'' \<and> nth_opt t 2 = Some ''ai.wot'')
                       (ev_tags ev) of
                  None \<Rightarrow> ''general-trust''
                | Some t \<Rightarrow> t ! 1)
      in case map_of ATTESTATION_WEIGHTS ty of None \<Rightarrow> 4 / 5 | Some w \<Rightarrow> w)"

text \<open>The loop of \<^verbatim>\<open>_calculateScore\<close> over \<open>(weightedSum, totalWeight, seenAttesters)\<close>.\<close>

fun score_loop ::
  "int \<Rightarrow> nostr_event list \<Rightarrow> real \<times> real \<times> string list \<Rightarrow> real \<times> real \<times> string list" where
  "score_loop now [] acc = acc"
| "score_loop now (ev # evs) (weightedSum, totalWeight, seen) =
     (if ev_pubkey ev \<in> set seen then score_loop now evs (weightedSum, totalWeight, seen)
      else
        (let weight = attestation_weight ev;
             ageMs = real_of_int (now - ev_created_at ev * 1000);
             halfLifeMs = 90 * 86400000;
             decay = (1 / 2) powr (ageMs / halfLifeMs)
         in score_loop now evs
              (weightedSum + weight * decay, totalWeight + weight, seen @ [ev_pubkey ev])))"

definition calculateScore :: "int \<Rightarrow> nostr_event list \<Rightarrow> real" where
  "calculateScore now attestations =
     (case score_loop now attestations (0, 0, []) of
        (weightedSum, totalWeight, seen) \<Rightarrow>
          if totalWeight = 0 then 0
          else
            (let networkFactor = min 1 (real (length seen) / 5);
                 qualityFactor = weightedSum / totalWeight
             in real_of_int (round (networkFactor * qualityFactor * 100))))"

text \<open>The relays are tried in order; \<open>None\<close> is a relay whose connection fails, \<open>Some evs\<close> a
  relay that delivers the events \<open>evs\<close> before its end-of-stored-events signal or the
  timeout. The loop stops at the first relay that answers; self-attestations are not
  collected.\<close>

fun collect_attestations :: "string \<Rightarrow> nostr_event list option list \<Rightarrow> nostr_event list" where
  "collect_attestations pubkey [] = []"
| "collect_attestations pubkey (None # rs) = collect_attestations pubkey rs"
| "collect_attestations pubkey (Some evs # rs) = filter (\<lambda>ev. ev_pubkey ev \<noteq> pubkey) evs"

definition queryNostr :: "nostr_event list option list \<Rightarrow> string \<Rightarrow> int \<Rightarrow> real option" where
  "queryNostr net pubkey now =
     (let attestations = collect_attestations pubkey net
      in if length attestations = 0 then None else Some (calculateScore now attestations))"

record trust_resolver =
  customResolver :: "(string \<Rightarrow> real option) option"
  cacheTtlMs :: int
  cache :: "(string \<times> real option \<times> int) list"

text \<open>\<^verbatim>\<open>cached && Date.now() - cached.fetchedAt < this.cacheTtlMs\<close>.\<close>

definition cache_fresh :: "trust_resolver \<Rightarrow> string \<Rightarrow> int \<Rightarrow> bool" where
  "cache_fresh tr agent now =
     (case map_of (cache tr) agent of
        None \<Rightarrow> False
      | Some (score, fetchedAt) \<Rightarrow> now - fetchedAt < cacheTtlMs tr)"

definition getScore ::
  "trust_resolver \<Rightarrow> nostr_event list option list \<Rightarrow> string \<Rightarrow> int
     \<Rightarrow> real option \<times> trust_resolver" where
  "getScore tr net agent now =
     (case customResolver tr of
        Some f \<Rightarrow> (f agent, tr)
      | None \<Rightarrow>
          if cache_fresh tr agent now then (fst (the (map_of (cache tr) agent)), tr)
          else
            (let score = queryNostr net agent now
             in (score, tr\<lparr>cache := AList.update agent (score, now) (cache tr)\<rparr>)))"

section \<open>Admission middleware (\<^verbatim>\<open>lib/middleware.cjs\<close>)\<close>

text \<open>The request object: header and parameter tables of strings, an optional parsed body,
  the URLs and the verb. Header names are lower-case, as the HTTP layer delivers them.\<close>

datatype reqval = RStr string | RObj "(string \<times> reqval) list"

record request =
  req_headers :: "(string \<times> string) list"
  req_params :: "(string \<times> string) list"
  req_body :: "reqval option"
  req_originalUrl :: "string option"
  req_url :: string
  req_method :: string

definition req_object :: "request \<Rightarrow> reqval" where
  "req_object r = RObj
     ([(''headers'', RObj (map (\<lambda>(k, v). (k, RStr v)) (req_headers r))),
       (''params'', RObj (map (\<lambda>(k, v). (k, RStr v)) (req_params r)))] @
      (case req_body r of None \<Rightarrow> [] | Some b \<Rightarrow> [(''body'', b)]) @
      (case req_originalUrl r of None \<Rightarrow> [] | Some u \<Rightarrow> [(''originalUrl'', RStr u)]) @
      [(''url'', RStr (req_url r)), (''method'', RStr (req_method r))])"

text \<open>Property access \<^verbatim>\<open>obj[key]\<close> (\<open>None\<close> is \<^verbatim>\<open>undefined\<close>; the built-in properties of
  strings are not modelled) and truthiness.\<close>

fun rv_get :: "reqval \<Rightarrow> string \<Rightarrow> reqval option" where
  "rv_get (RObj kvs) key = map_of kvs key"
| "rv_get (RStr s) key = None"

fun rv_truthy :: "reqval option \<Rightarrow> bool" where
  "rv_truthy None = False"
| "rv_truthy (Some (RStr s)) = (s \<noteq> [])"
| "rv_truthy (Some (RObj kvs)) = True"

text \<open>\<^verbatim>\<open>path.split('.').reduce((obj, key) => obj && obj[key], req)\<close>, and \<open>None\<close> for a missing
  path.\<close>

definition extract_path :: "request \<Rightarrow> string option \<Rightarrow> reqval option" where
  "extract_path req path =
     (if \<not> truthy_str path then None
      else fold (\<lambda>key obj. if rv_truthy obj then rv_get (the obj) key else obj)
             (js_split ''.'' (the path)) (Some (req_object req)))"

text \<open>An identifier is used through its string conversion.\<close>

fun id_string :: "reqval \<Rightarrow> string" where
  "id_string (RStr s) = s"
| "id_string (RObj kvs) = ''[object Object]''"

record route_opts =
  agentFrom :: "string option"
  contextFrom :: "string option"
  description :: "string option"

definition agent_of :: "request \<Rightarrow> route_opts \<Rightarrow> string" where
  "agent_of req opts =
     (let e = extract_path req (agentFrom opts) in
      if rv_truthy e then id_string (the e)
      else if truthy_str (map_of (req_headers req) ''x-agent-id'')
      then the (map_of (req_headers req) ''x-agent-id'')
      else ''anonymous'')"

definition context_of :: "request \<Rightarrow> route_opts \<Rightarrow> string" where
  "context_of req opts =
     (let e = extract_path req (contextFrom opts) in
      if rv_truthy e then id_string (the e)
      else if truthy_str (map_of (req_params req) ''threadId'')
      then the (map_of (req_params req) ''threadId'')
      else if truthy_str (map_of (req_params req) ''postId'')
      then the (map_of (req_params req) ''postId'')
      else ''default'')"

definition request_endpoint :: "request \<Rightarrow> string" where
  "request_endpoint req =
     (if truthy_str (req_originalUrl req) then the (req_originalUrl req) else req_url req)"

text \<open>What the middleware obtains from outside the library: the decoding of a token
  (\<^verbatim>\<open>JSON.parse\<close> of the base64-decoded text, \<open>None\<close> when it throws), the encoding of a
  macaroon, the trust score that wins the race against the three-second timer (\<open>None\<close>
  for \<^verbatim>\<open>null\<close>, a rejection or the timeout), and the wallet's \<^verbatim>\<open>createInvoice\<close> (\<open>None\<close>
  when it throws), which returns the invoice and the payment hash.\<close>

record runtime =
  decode_json :: "string \<Rightarrow> jsval option"
  encode_json :: "macaroon \<Rightarrow> string"
  trust_getScore :: "string \<Rightarrow> rat option"
  wallet_createInvoice :: "rat \<Rightarrow> string \<Rightarrow> (string \<times> string) option"

record toll_config =
  secret :: string
  invoiceTtlSecs :: int
  defaultDescription :: string
  pricing :: pricing_config

definition decodeMacaroon :: "runtime \<Rightarrow> string \<Rightarrow> jsval" where
  "decodeMacaroon rt encoded = (case decode_json rt encoded of None \<Rightarrow> JNull | Some v \<Rightarrow> v)"

definition encodeMacaroon :: "runtime \<Rightarrow> macaroon \<Rightarrow> string" where
  "encodeMacaroon rt m = encode_json rt m"

text \<open>Property access on a decoded value, for the keys \<^verbatim>\<open>id\<close>, \<^verbatim>\<open>caveats\<close> and
  \<^verbatim>\<open>signature\<close>, which only an object can have.\<close>

fun js_get :: "jsval \<Rightarrow> string \<Rightarrow> jsval" where
  "js_get (JObj kvs) key = (case map_of kvs key of None \<Rightarrow> JUndefined | Some v \<Rightarrow> v)"
| "js_get v key = JUndefined"

fun js_string :: "jsval \<Rightarrow> string option" where
  "js_string (JStr s) = Some s"
| "js_string v = None"

text \<open>The values that \<^verbatim>\<open>for (const caveat of macaroon.caveats)\<close> iterates over, when the
  loop and the \<^verbatim>\<open>update(caveat)\<close> in its body do not throw: the elements of an array of
  strings, or the characters of a string.\<close>

fun js_caveats :: "jsval \<Rightarrow> string list option" where
  "js_caveats (JArr xs) =
     (if list_all (\<lambda>x. js_string x \<noteq> None) xs then Some (map (\<lambda>x. the (js_string x)) xs)
      else None)"
| "js_caveats (JStr s) = Some (map (\<lambda>c. [c]) s)"
| "js_caveats v = None"

text \<open>\<^verbatim>\<open>verifyMacaroon\<close> on a decoded value. Where the value has the documented shape this
  is \<^const>\<open>verifyMacaroon\<close>; an identifier that is no string makes \<^verbatim>\<open>update\<close> throw, as does
  a caveat that is no string, and a \<^verbatim>\<open>caveats\<close> property that cannot be iterated makes the
  loop throw; a signature that is no string differs from the computed one.\<close>

definition verifyMacaroon_json ::
  "string \<Rightarrow> jsval \<Rightarrow> verify_ctx \<Rightarrow> int \<Rightarrow> js_error + vresult" where
  "verifyMacaroon_json sec m ctx now =
     (case js_string (js_get m ''id'') of
        None \<Rightarrow> Inl TypeError
      | Some ident \<Rightarrow>
          (case js_caveats (js_get m ''caveats'') of
             None \<Rightarrow> Inl TypeError
           | Some cs \<Rightarrow>
               (case js_string (js_get m ''signature'') of
                  None \<Rightarrow> Inr (Invalid ''Invalid signature'')
                | Some sg \<Rightarrow>
                    verifyMacaroon sec
                      \<lparr>mac_id = ident, mac_caveats = cs, mac_signature = sg\<rparr> ctx now)))"

text \<open>\<^verbatim>\<open>authHeader.replace(/^l402\s+/i, '')\<close>.\<close>

definition strip_l402 :: "string \<Rightarrow> string" where
  "strip_l402 h =
     (if toUpperCase (take 4 h) = ''L402'' \<and> ws_len (drop 4 h) \<noteq> 0
      then skip_ws (drop 4 h) else h)"

definition request_ctx :: "request \<Rightarrow> route_opts \<Rightarrow> verify_ctx" where
  "request_ctx req opts =
     \<lparr>ctx_endpoint = Some (request_endpoint req),
      ctx_method = Some (req_method req),
      ctx_contextId = Some (context_of req opts),
      ctx_agentId = Some (agent_of req opts)\<rparr>"

text \<open>\<^verbatim>\<open>_verifyL402\<close>: \<open>Inl TypeError\<close> when an exception leaves the function, otherwise the
  engine and either the error of an invalid credential or the payment hash.\<close>

definition verifyL402 ::
  "runtime \<Rightarrow> toll_config \<Rightarrow> route_opts \<Rightarrow> engine \<Rightarrow> string \<Rightarrow> request \<Rightarrow> int
     \<Rightarrow> js_error + (engine \<times> (string + string))" where
  "verifyL402 rt cfg opts st authHeader req now =
     (let parts = js_split '':'' (strip_l402 authHeader) in
      if length parts \<noteq> 2
      then Inr (st, Inl ''Invalid L402 format. Expected: L402 <macaroon>:<preimage>'')
      else
        (let encodedMacaroon = parts ! 0;
             preimage = parts ! 1;
             m = decodeMacaroon rt encodedMacaroon in
         if \<not> truthy m then Inr (st, Inl ''Invalid macaroon encoding'')
         else if \<not> (case js_string (js_get m ''id'') of
                       None \<Rightarrow> False
                     | Some h \<Rightarrow> verifyPreimage preimage h)
         then Inr (st, Inl ''Preimage does not match payment hash'')
         else
           (case verifyMacaroon_json (secret cfg) m (request_ctx req opts) now of
              Inl e \<Rightarrow> Inl e
            | Inr (Invalid err) \<Rightarrow> Inr (st, Inl err)
            | Inr Valid \<Rightarrow>
                Inr (snd (calculate (pricing cfg) st (agent_of req opts) (context_of req opts)
                            None False now),
                     Inr (the (js_string (js_get m ''id'')))))))"

text \<open>What the middleware does with the request: it calls the downstream handler
  (\<^verbatim>\<open>next()\<close>) with the flags it has set on the request, or it answers 401 or 402.\<close>

record toll_flags =
  tollPaid :: bool
  tollFree :: bool
  tollPaymentHash :: "string option"
  tollBreakdown :: "breakdown option"
  tollError :: bool

record challenge =
  ch_www_authenticate :: string
  ch_paymentHash :: string
  ch_invoice :: string
  ch_macaroon :: string
  ch_amountSats :: rat
  ch_contextId :: string
  ch_description :: string
  ch_pricing :: breakdown

datatype outcome =
    Next toll_flags
  | Status401 string
  | Status402 challenge

definition no_flags :: toll_flags where
  "no_flags = \<lparr>tollPaid = False, tollFree = False, tollPaymentHash = None,
               tollBreakdown = None, tollError = False\<rparr>"

definition has_l402 :: "string \<Rightarrow> bool" where
  "has_l402 authHeader \<longleftrightarrow> prefix ''L402 '' authHeader \<or> prefix ''l402 '' authHeader"

definition auth_header :: "request \<Rightarrow> string" where
  "auth_header req =
     (case map_of (req_headers req) ''authorization'' of None \<Rightarrow> [] | Some h \<Rightarrow> h)"

text \<open>The branch without credentials: quote, free pass or challenge. An exception of the
  wallet is caught by the handler of the middleware, which lets the request through.\<close>

definition challenge_path ::
  "runtime \<Rightarrow> toll_config \<Rightarrow> route_opts \<Rightarrow> engine \<Rightarrow> request \<Rightarrow> int \<Rightarrow> engine \<times> outcome" where
  "challenge_path rt cfg opts st req now =
     (let agent = agent_of req opts;
          context = context_of req opts;
          trustScore = trust_getScore rt agent;
          (price, st') = calculate (pricing cfg) st agent context trustScore True now in
      if sats price = 0
      then (st', Next (no_flags\<lparr>tollPaid := True, tollFree := True,
                                tollBreakdown := Some (pr_breakdown price)\<rparr>))
      else
        (let descr = (if truthy_str (description opts) then the (description opts)
                      else defaultDescription cfg @ '': '' @ context) in
         case wallet_createInvoice rt (sats price) descr of
           None \<Rightarrow> (st', Next (no_flags\<lparr>tollError := True\<rparr>))
         | Some (invoice, paymentHash) \<Rightarrow>
             (let expires = now div 1000 + invoiceTtlSecs cfg;
                  m = createMacaroon (secret cfg) paymentHash
                        \<lparr>expiresAt = JNum expires,
                         endpoint = JStr (request_endpoint req),
                         method_opt = JStr (req_method req),
                         contextId = JStr context,
                         agentId = JStr agent,
                         maxActions = JUndefined\<rparr>;
                  encoded = encodeMacaroon rt m
              in (st', Status402
                    \<lparr>ch_www_authenticate =
                       ''L402 invoice='' @ [CHR 0x22] @ invoice @ [CHR 0x22] @
                         '', macaroon='' @ [CHR 0x22] @ encoded @ [CHR 0x22],
                     ch_paymentHash = paymentHash,
                     ch_invoice = invoice,
                     ch_macaroon = encoded,
                     ch_amountSats = sats price,
                     ch_contextId = context,
                     ch_description = descr,
                     ch_pricing = pr_breakdown price\<rparr>))))"

definition discourseTollMiddleware ::
  "runtime \<Rightarrow> toll_config \<Rightarrow> route_opts \<Rightarrow> engine \<Rightarrow> request \<Rightarrow> int \<Rightarrow> engine \<times> outcome" where
  "discourseTollMiddleware rt cfg opts st req now =
     (let authHeader = auth_header req in
      if has_l402 authHeader then
        (case verifyL402 rt cfg opts st authHeader req now of
           Inl e \<Rightarrow> (st, Next (no_flags\<lparr>tollError := True\<rparr>))
         | Inr (st', Inl err) \<Rightarrow> (st', Status401 err)
         | Inr (st', Inr paymentHash) \<Rightarrow>
             (st', Next (no_flags\<lparr>tollPaid := True, tollPaymentHash := Some paymentHash\<rparr>)))
      else challenge_path rt cfg opts st req now)"

section \<open>Definitions that follow the wording of the specification\<close>

text \<open>The chained MAC with the raw 32-byte digest of each step as the key of the next.\<close>

definition raw_chain :: "bytes \<Rightarrow> string list \<Rightarrow> bytes" where
  "raw_chain sig0 cs = fold (\<lambda>c sg. hmac_sha256 sg (utf8 c)) cs sig0"

text \<open>The key rules as the specification words them: the secret is hex only when it matches
  the lower-case expression, and a chained key is the hex text of the prior signature.\<close>

definition claimed_initial_key :: "string \<Rightarrow> bytes" where
  "claimed_initial_key sec = (if is_lower_hex64 sec then hex_decode sec else utf8 sec)"

definition claimed_chain_key :: "string \<Rightarrow> bytes" where
  "claimed_chain_key prior_signature = utf8 prior_signature"



text \<open>The configuration of the concrete scenarios of the specification (base 1,
  multiplier 1.5, cap 50, cooldown disabled, trust disabled), and the calls
  \<^verbatim>\<open>calculate("a", "t")\<close>, committed or as a dry run.\<close>

definition scenario_config :: pricing_config where
  "scenario_config =
     DEFAULT_PRICING
       \<lparr>trustDiscount := (trustDiscount DEFAULT_PRICING)\<lparr>td_enabled := False\<rparr>,
        cooldown := (cooldown DEFAULT_PRICING)\<lparr>cd_enabled := False\<rparr>\<rparr>"

definition commit_call :: "rat option \<Rightarrow> int \<Rightarrow> call" where
  "commit_call ts t =
     \<lparr>c_agent = ''a'', c_context = ''t'', c_trust = ts, c_dryRun = False, c_now = t\<rparr>"

definition dry_call :: "rat option \<Rightarrow> int \<Rightarrow> call" where
  "dry_call ts t =
     \<lparr>c_agent = ''a'', c_context = ''t'', c_trust = ts, c_dryRun = True, c_now = t\<rparr>"

text \<open>A successful L402-authorized retry: the request carries the scheme, the header has
  the two parts, the macaroon decodes, the preimage matches its identifier, and the
  signature and the caveats verify.\<close>

definition authorized_retry ::
  "runtime \<Rightarrow> toll_config \<Rightarrow> route_opts \<Rightarrow> request \<Rightarrow> int \<Rightarrow> bool" where
  "authorized_retry rt cfg opts req now \<longleftrightarrow>
     has_l402 (auth_header req) \<and>
     (let parts = js_split '':'' (strip_l402 (auth_header req));
          m = decodeMacaroon rt (parts ! 0)
      in length parts = 2 \<and> truthy m \<and>
         (case js_string (js_get m ''id'') of
            None \<Rightarrow> False
          | Some h \<Rightarrow> verifyPreimage (parts ! 1) h) \<and>
         verifyMacaroon_json (secret cfg) m (request_ctx req opts) now = Inr Valid)"

section \<open>Properties\<close>

subsection \<open>Hexadecimal encoding and digest sizes\<close>

lemma length_hex_encode: "length (hex_encode bs) = 2 * length bs"
  by (induction bs) (simp_all add: hex_encode_def)

lemma lt16_cases:
  "(k::nat) < 16 \<Longrightarrow> k = 0 \<or> k = 1 \<or> k = 2 \<or> k = 3 \<or> k = 4 \<or> k = 5 \<or> k = 6 \<or> k = 7 \<or>
     k = 8 \<or> k = 9 \<or> k = 10 \<or> k = 11 \<or> k = 12 \<or> k = 13 \<or> k = 14 \<or> k = 15"
  by arith

lemma hexval_hexdigit: "hexval (hexdigit n) = Some (n mod 16)"
proof -
  have "n mod 16 < 16" by simp
  from lt16_cases [OF this] show ?thesis
    unfolding hexdigit_def hexval_def by (elim disjE) simp_all
qed

lemma hex_decode_encode: "hex_decode (hex_encode bs) = map (\<lambda>b. b mod 256) bs"
proof (induction bs)
  case Nil
  then show ?case by (simp add: hex_encode_def)
next
  case (Cons b bs)
  have "16 * (b div 16 mod 16) + b mod 16 = b mod 256"
    using mod_mult2_eq [of b 16 16] by simp
  with Cons show ?case
    by (simp add: hex_encode_def hexval_hexdigit)
qed

lemma hex_decode_encode_bytes:
  "list_all (\<lambda>b. b < 256) bs \<Longrightarrow> hex_decode (hex_encode bs) = bs"
  by (simp add: hex_decode_encode list_all_iff map_idI)

lemma hexdigits_hex_encode: "list_all (\<lambda>c. hexval c \<noteq> None) (hex_encode bs)"
  by (induction bs) (simp_all add: hex_encode_def hexval_hexdigit)

lemma is_hex64_hex_encode: "length bs = 32 \<Longrightarrow> is_hex64 (hex_encode bs)"
  unfolding is_hex64_def using hexdigits_hex_encode [of bs] by (simp add: length_hex_encode)

lemma length_sha_out: "length (sha_out s) = 32"
  by (cases s) (auto simp: word_bytes_def)

lemma sha_out_lt: "list_all (\<lambda>b. b < 256) (sha_out s)"
  by (cases s) (auto simp: word_bytes_def)

lemma length_sha256: "length (sha256 m) = 32"
  by (simp add: sha256_def length_sha_out)

lemma sha256_lt: "list_all (\<lambda>b. b < 256) (sha256 m)"
  by (simp add: sha256_def sha_out_lt)

lemma length_hmac_sha256: "length (hmac_sha256 k m) = 32"
  by (simp add: hmac_sha256_def Let_def length_sha256)

lemma hmac_sha256_lt: "list_all (\<lambda>b. b < 256) (hmac_sha256 k m)"
  by (simp add: hmac_sha256_def Let_def sha256_lt)

lemma hmac_key_hex_encode:
  "length bs = 32 \<Longrightarrow> list_all (\<lambda>b. b < 256) bs \<Longrightarrow> hmac_key (hex_encode bs) = bs"
  by (simp add: hmac_key_def is_hex64_hex_encode hex_decode_encode_bytes)

lemma hmac_key_hmac: "hmac_key (hmac key data) = hmac_sha256 (hmac_key key) (utf8 data)"
  by (simp add: hmac_def hmac_key_hex_encode length_hmac_sha256 hmac_sha256_lt)

subsection \<open>The signature chain\<close>

lemma fold_hmac_raw:
  "length b = 32 \<Longrightarrow> list_all (\<lambda>x. x < 256) b \<Longrightarrow>
   fold (\<lambda>caveat sg. hmac sg caveat) cs (hex_encode b) = hex_encode (raw_chain b cs)"
proof (induction cs arbitrary: b)
  case Nil
  then show ?case by (simp add: raw_chain_def)
next
  case (Cons c cs)
  have step: "hmac (hex_encode b) c = hex_encode (hmac_sha256 b (utf8 c))"
    using Cons.prems by (simp add: hmac_def hmac_key_hex_encode)
  have "fold (\<lambda>caveat sg. hmac sg caveat) cs (hex_encode (hmac_sha256 b (utf8 c)))
        = hex_encode (raw_chain (hmac_sha256 b (utf8 c)) cs)"
    by (rule Cons.IH) (simp_all add: length_hmac_sha256 hmac_sha256_lt)
  with step show ?case by (simp add: raw_chain_def)
qed

lemma chain_sig_raw:
  "chain_sig sec ident cs =
     hex_encode (raw_chain (hmac_sha256 (hmac_key sec) (utf8 ident)) cs)"
  unfolding chain_sig_def hmac_def [of sec ident]
  by (rule fold_hmac_raw) (simp_all add: length_hmac_sha256 hmac_sha256_lt)

lemma length_utf8: "length (utf8 s) = length s"
  by (simp add: utf8_def)

lemma length_hmac: "length (hmac k d) = 64"
  by (simp add: hmac_def length_hex_encode length_hmac_sha256)

text \<open>
  Claim C2, as the code has it. In \<^verbatim>\<open>createMacaroon\<close> and in \<^verbatim>\<open>verifyMacaroon\<close> the first
  HMAC key is the secret decoded as hex when it consists of 64 hex digits of either case,
  and its UTF-8 bytes otherwise. The key of every chained step is the raw 32-byte digest
  of the step before: the helper receives the 64 hex digits of the prior signature, which
  always match its expression, and decodes them. So the signature of a macaroon is the hex
  text of the chain over raw digests, and \<^verbatim>\<open>verifyMacaroon\<close> compares with exactly that.
\<close>

theorem chain_keys_are_raw_digests:
  "mac_signature (createMacaroon sec paymentHash c) =
     hex_encode (raw_chain
       (hmac_sha256 (if is_hex64 sec then hex_decode sec else utf8 sec) (utf8 paymentHash))
       (caveatStrings c))
   \<and> verifyMacaroon sec m ctx now =
     (if hex_encode (raw_chain
           (hmac_sha256 (if is_hex64 sec then hex_decode sec else utf8 sec) (utf8 (mac_id m)))
           (mac_caveats m)) \<noteq> mac_signature m
      then Inr (Invalid ''Invalid signature'')
      else check_caveats ctx now (mac_caveats m))
   \<and> hmac_key (hmac key data) = hmac_sha256 (hmac_key key) (utf8 data)"
  using chain_sig_raw [of sec paymentHash "caveatStrings c"]
        chain_sig_raw [of sec "mac_id m" "mac_caveats m"]
  by (simp add: createMacaroon_def verifyMacaroon_def hmac_key_def [of sec] hmac_key_hmac)

text \<open>An instance: with a secret that is no hex string, the key of the step after
  \<^verbatim>\<open>hmac('test-secret', 'abc')\<close> is the digest itself.\<close>

theorem chain_keys_witness:
  "hmac_key (hmac ''test-secret'' ''abc'') = hmac_sha256 (utf8 ''test-secret'') (utf8 ''abc'')"
proof -
  have k: "hmac_key ''test-secret'' = utf8 ''test-secret''"
    by (simp add: hmac_key_def is_hex64_def)
  from chain_keys_are_raw_digests [of "''test-secret''" "''abc''" _ _ _ _ "''test-secret''" "''abc''"]
  have "hmac_key (hmac ''test-secret'' ''abc'') = hmac_sha256 (hmac_key ''test-secret'') (utf8 ''abc'')"
    by blast
  with k show ?thesis by simp
qed

text \<open>
  The key rules in the wording of the specification differ from the code at two places: a
  secret of 64 upper-case hex digits is decoded as hex by the code, and the key of a
  chained step has 32 bytes, not the 64 bytes of the hex text of the prior signature.
\<close>

theorem chained_key_counterexample:
  "hmac_key ''AAAAAAAAAAAAAAAAAAAAAAAAAAAAAAAAAAAAAAAAAAAAAAAAAAAAAAAAAAAAAAAA''
     \<noteq> claimed_initial_key ''AAAAAAAAAAAAAAAAAAAAAAAAAAAAAAAAAAAAAAAAAAAAAAAAAAAAAAAAAAAAAAAA''
   \<and> hmac_key (hmac ''test-secret'' ''abc'') \<noteq> claimed_chain_key (hmac ''test-secret'' ''abc'')"
proof
  have "length (hmac_key ''AAAAAAAAAAAAAAAAAAAAAAAAAAAAAAAAAAAAAAAAAAAAAAAAAAAAAAAAAAAAAAAA'') = 32"
    by (simp add: hmac_key_def is_hex64_def hexval_def)
  moreover have
    "length (claimed_initial_key ''AAAAAAAAAAAAAAAAAAAAAAAAAAAAAAAAAAAAAAAAAAAAAAAAAAAAAAAAAAAAAAAA'') = 64"
    by (simp add: claimed_initial_key_def is_lower_hex64_def length_utf8)
  ultimately show
    "hmac_key ''AAAAAAAAAAAAAAAAAAAAAAAAAAAAAAAAAAAAAAAAAAAAAAAAAAAAAAAAAAAAAAAA''
       \<noteq> claimed_initial_key ''AAAAAAAAAAAAAAAAAAAAAAAAAAAAAAAAAAAAAAAAAAAAAAAAAAAAAAAAAAAAAAAA''"
    by auto
next
  have "length (hmac_key (hmac ''test-secret'' ''abc'')) = 32"
    by (simp add: hmac_key_hmac length_hmac_sha256)
  moreover have "length (claimed_chain_key (hmac ''test-secret'' ''abc'')) = 64"
    by (simp add: claimed_chain_key_def length_utf8 length_hmac)
  ultimately show
    "hmac_key (hmac ''test-secret'' ''abc'') \<noteq> claimed_chain_key (hmac ''test-secret'' ''abc'')"
    by auto
qed

subsection \<open>Caveat strings\<close>

lemma caveat_key_built:
  "caveat_key (''expires_at = '' @ v) = ''expires_at''"
  "caveat_key (''endpoint = '' @ v) = ''endpoint''"
  "caveat_key (''method = '' @ v) = ''method''"
  "caveat_key (''context = '' @ v) = ''context''"
  "caveat_key (''agent = '' @ v) = ''agent''"
  "caveat_key (''max_actions = '' @ v) = ''max_actions''"
  by (simp_all add: caveat_key_def js_split_def)

lemma caveat_string_key:
  "x \<in> set (caveat_string k v) \<Longrightarrow> x = k @ '' = '' @ js_to_string v \<and> truthy v"
  by (simp add: caveat_string_def split: if_splits)

lemma caveatStrings_keys:
  assumes "x \<in> set (caveatStrings c)"
  shows "(caveat_key x = ''expires_at'' \<and> truthy (expiresAt c)) \<or>
     (caveat_key x = ''endpoint'' \<and> truthy (endpoint c)) \<or>
     (caveat_key x = ''method'' \<and> truthy (method_opt c)) \<or>
     (caveat_key x = ''context'' \<and> truthy (contextId c)) \<or>
     (caveat_key x = ''agent'' \<and> truthy (agentId c)) \<or>
     (caveat_key x = ''max_actions'' \<and> truthy (maxActions c))"
proof -
  from assms consider
      (a) "x \<in> set (caveat_string ''expires_at'' (expiresAt c))"
    | (b) "x \<in> set (caveat_string ''endpoint'' (endpoint c))"
    | (c) "x \<in> set (caveat_string ''method'' (method_opt c))"
    | (d) "x \<in> set (caveat_string ''context'' (contextId c))"
    | (e) "x \<in> set (caveat_string ''agent'' (agentId c))"
    | (f) "x \<in> set (caveat_string ''max_actions'' (maxActions c))"
    by (auto simp: caveatStrings_def)
  then show ?thesis
  proof cases
    case a
    from caveat_string_key [OF a] show ?thesis by (simp add: caveat_key_def js_split_def)
  next
    case b
    from caveat_string_key [OF b] show ?thesis by (simp add: caveat_key_def js_split_def)
  next
    case c
    from caveat_string_key [OF c] show ?thesis by (simp add: caveat_key_def js_split_def)
  next
    case d
    from caveat_string_key [OF d] show ?thesis by (simp add: caveat_key_def js_split_def)
  next
    case e
    from caveat_string_key [OF e] show ?thesis by (simp add: caveat_key_def js_split_def)
  next
    case f
    from caveat_string_key [OF f] show ?thesis by (simp add: caveat_key_def js_split_def)
  qed
qed

lemma check_caveat_not_expired:
  "caveat_key x \<noteq> ''expires_at'' \<Longrightarrow> check_caveat ctx now x \<noteq> Inr (Invalid ''Macaroon expired'')"
  by (simp add: check_caveat_def Let_def split: option.splits)

lemma check_caveats_not_expired:
  "\<forall>x\<in>set cs. caveat_key x \<noteq> ''expires_at'' \<Longrightarrow>
   check_caveats ctx now cs \<noteq> Inr (Invalid ''Macaroon expired'')"
proof (induction cs)
  case Nil
  then show ?case by simp
next
  case (Cons c cs)
  then have "check_caveat ctx now c \<noteq> Inr (Invalid ''Macaroon expired'')"
    by (simp add: check_caveat_not_expired)
  with Cons show ?case
    by (auto split: sum.splits vresult.splits)
qed

lemma check_caveats_append:
  "check_caveats ctx now pre = Inr Valid \<Longrightarrow>
   check_caveats ctx now (pre @ cs) = check_caveats ctx now cs"
  by (induction pre) (auto split: sum.splits vresult.splits)

lemma check_caveats_valid_all:
  "check_caveats ctx now cs = Inr Valid \<Longrightarrow> c \<in> set cs \<Longrightarrow> check_caveat ctx now c = Inr Valid"
  by (induction cs) (auto split: sum.splits vresult.splits)

lemma check_caveats_all_valid:
  "\<forall>c\<in>set cs. check_caveat ctx now c = Inr Valid \<Longrightarrow> check_caveats ctx now cs = Inr Valid"
  by (induction cs) auto

lemma endpoint_caveat_check:
  "caveat_key c = ''endpoint'' \<Longrightarrow>
   check_caveat ctx now c =
     (if truthy_str (ctx_endpoint ctx) \<and> ctx_endpoint ctx \<noteq> caveat_value c
      then Inr (Invalid (''Endpoint mismatch: expected '' @ show_value (caveat_value c)))
      else Inr Valid)"
  by (simp add: check_caveat_def Let_def)

lemma omitted_expiresAt:
  assumes "\<not> truthy (expiresAt c)"
  shows "createMacaroon s h c = createMacaroon s h (c\<lparr>expiresAt := JUndefined\<rparr>)"
    and "\<forall>x\<in>set (mac_caveats (createMacaroon s h c)). caveat_key x \<noteq> ''expires_at''"
proof -
  from assms have "caveatStrings c = caveatStrings (c\<lparr>expiresAt := JUndefined\<rparr>)"
    by (simp add: caveatStrings_def caveat_string_def)
  then show "createMacaroon s h c = createMacaroon s h (c\<lparr>expiresAt := JUndefined\<rparr>)"
    by (simp add: createMacaroon_def)
  show "\<forall>x\<in>set (mac_caveats (createMacaroon s h c)). caveat_key x \<noteq> ''expires_at''"
  proof
    fix x assume "x \<in> set (mac_caveats (createMacaroon s h c))"
    then have "x \<in> set (caveatStrings c)" by (simp add: createMacaroon_def)
    from caveatStrings_keys [OF this] assms show "caveat_key x \<noteq> ''expires_at''" by auto
  qed
qed

lemma omitted_endpoint:
  assumes "\<not> truthy (endpoint c)"
  shows "createMacaroon s h c = createMacaroon s h (c\<lparr>endpoint := JUndefined\<rparr>)"
    and "\<forall>x\<in>set (mac_caveats (createMacaroon s h c)). caveat_key x \<noteq> ''endpoint''"
proof -
  from assms have "caveatStrings c = caveatStrings (c\<lparr>endpoint := JUndefined\<rparr>)"
    by (simp add: caveatStrings_def caveat_string_def)
  then show "createMacaroon s h c = createMacaroon s h (c\<lparr>endpoint := JUndefined\<rparr>)"
    by (simp add: createMacaroon_def)
  show "\<forall>x\<in>set (mac_caveats (createMacaroon s h c)). caveat_key x \<noteq> ''endpoint''"
  proof
    fix x assume "x \<in> set (mac_caveats (createMacaroon s h c))"
    then have "x \<in> set (caveatStrings c)" by (simp add: createMacaroon_def)
    from caveatStrings_keys [OF this] assms show "caveat_key x \<noteq> ''endpoint''" by auto
  qed
qed

lemma omitted_method:
  assumes "\<not> truthy (method_opt c)"
  shows "createMacaroon s h c = createMacaroon s h (c\<lparr>method_opt := JUndefined\<rparr>)"
    and "\<forall>x\<in>set (mac_caveats (createMacaroon s h c)). caveat_key x \<noteq> ''method''"
proof -
  from assms have "caveatStrings c = caveatStrings (c\<lparr>method_opt := JUndefined\<rparr>)"
    by (simp add: caveatStrings_def caveat_string_def)
  then show "createMacaroon s h c = createMacaroon s h (c\<lparr>method_opt := JUndefined\<rparr>)"
    by (simp add: createMacaroon_def)
  show "\<forall>x\<in>set (mac_caveats (createMacaroon s h c)). caveat_key x \<noteq> ''method''"
  proof
    fix x assume "x \<in> set (mac_caveats (createMacaroon s h c))"
    then have "x \<in> set (caveatStrings c)" by (simp add: createMacaroon_def)
    from caveatStrings_keys [OF this] assms show "caveat_key x \<noteq> ''method''" by auto
  qed
qed

lemma omitted_contextId:
  assumes "\<not> truthy (contextId c)"
  shows "createMacaroon s h c = createMacaroon s h (c\<lparr>contextId := JUndefined\<rparr>)"
    and "\<forall>x\<in>set (mac_caveats (createMacaroon s h c)). caveat_key x \<noteq> ''context''"
proof -
  from assms have "caveatStrings c = caveatStrings (c\<lparr>contextId := JUndefined\<rparr>)"
    by (simp add: caveatStrings_def caveat_string_def)
  then show "createMacaroon s h c = createMacaroon s h (c\<lparr>contextId := JUndefined\<rparr>)"
    by (simp add: createMacaroon_def)
  show "\<forall>x\<in>set (mac_caveats (createMacaroon s h c)). caveat_key x \<noteq> ''context''"
  proof
    fix x assume "x \<in> set (mac_caveats (createMacaroon s h c))"
    then have "x \<in> set (caveatStrings c)" by (simp add: createMacaroon_def)
    from caveatStrings_keys [OF this] assms show "caveat_key x \<noteq> ''context''" by auto
  qed
qed

lemma omitted_agentId:
  assumes "\<not> truthy (agentId c)"
  shows "createMacaroon s h c = createMacaroon s h (c\<lparr>agentId := JUndefined\<rparr>)"
    and "\<forall>x\<in>set (mac_caveats (createMacaroon s h c)). caveat_key x \<noteq> ''agent''"
proof -
  from assms have "caveatStrings c = caveatStrings (c\<lparr>agentId := JUndefined\<rparr>)"
    by (simp add: caveatStrings_def caveat_string_def)
  then show "createMacaroon s h c = createMacaroon s h (c\<lparr>agentId := JUndefined\<rparr>)"
    by (simp add: createMacaroon_def)
  show "\<forall>x\<in>set (mac_caveats (createMacaroon s h c)). caveat_key x \<noteq> ''agent''"
  proof
    fix x assume "x \<in> set (mac_caveats (createMacaroon s h c))"
    then have "x \<in> set (caveatStrings c)" by (simp add: createMacaroon_def)
    from caveatStrings_keys [OF this] assms show "caveat_key x \<noteq> ''agent''" by auto
  qed
qed

lemma omitted_maxActions:
  assumes "\<not> truthy (maxActions c)"
  shows "createMacaroon s h c = createMacaroon s h (c\<lparr>maxActions := JUndefined\<rparr>)"
    and "\<forall>x\<in>set (mac_caveats (createMacaroon s h c)). caveat_key x \<noteq> ''max_actions''"
proof -
  from assms have "caveatStrings c = caveatStrings (c\<lparr>maxActions := JUndefined\<rparr>)"
    by (simp add: caveatStrings_def caveat_string_def)
  then show "createMacaroon s h c = createMacaroon s h (c\<lparr>maxActions := JUndefined\<rparr>)"
    by (simp add: createMacaroon_def)
  show "\<forall>x\<in>set (mac_caveats (createMacaroon s h c)). caveat_key x \<noteq> ''max_actions''"
  proof
    fix x assume "x \<in> set (mac_caveats (createMacaroon s h c))"
    then have "x \<in> set (caveatStrings c)" by (simp add: createMacaroon_def)
    from caveatStrings_keys [OF this] assms show "caveat_key x \<noteq> ''max_actions''" by auto
  qed
qed

lemma falsy_expiry_never_expired:
  assumes "\<not> truthy (expiresAt c)"
  shows "verifyMacaroon s' (createMacaroon s h c) ctx now \<noteq> Inr (Invalid ''Macaroon expired'')"
proof -
  have "check_caveats ctx now (mac_caveats (createMacaroon s h c))
          \<noteq> Inr (Invalid ''Macaroon expired'')"
    using omitted_expiresAt(2) [OF assms] by (rule check_caveats_not_expired)
  then show ?thesis by (simp add: verifyMacaroon_def)
qed

text \<open>
  Claim C10. \<^verbatim>\<open>createMacaroon\<close> emits no caveat string for an option whose value is falsy
  (absent, \<^verbatim>\<open>null\<close>, \<^verbatim>\<open>false\<close>, \<^verbatim>\<open>0\<close> or the empty string): the macaroon is the one created
  without that option, and none of its caveats has the key of the option. A macaroon
  created with a falsy \<^verbatim>\<open>expiresAt\<close> is therefore never reported expired by
  \<^verbatim>\<open>verifyMacaroon\<close>, at any time, in any context and under any secret.
\<close>

theorem falsy_options_emit_no_caveat:
  "(\<not> truthy (expiresAt c) \<longrightarrow>
      createMacaroon s h c = createMacaroon s h (c\<lparr>expiresAt := JUndefined\<rparr>) \<and>
      (\<forall>x\<in>set (mac_caveats (createMacaroon s h c)). caveat_key x \<noteq> ''expires_at'') \<and>
      verifyMacaroon s' (createMacaroon s h c) ctx now \<noteq> Inr (Invalid ''Macaroon expired''))
   \<and> (\<not> truthy (endpoint c) \<longrightarrow>
      createMacaroon s h c = createMacaroon s h (c\<lparr>endpoint := JUndefined\<rparr>) \<and>
      (\<forall>x\<in>set (mac_caveats (createMacaroon s h c)). caveat_key x \<noteq> ''endpoint''))
   \<and> (\<not> truthy (method_opt c) \<longrightarrow>
      createMacaroon s h c = createMacaroon s h (c\<lparr>method_opt := JUndefined\<rparr>) \<and>
      (\<forall>x\<in>set (mac_caveats (createMacaroon s h c)). caveat_key x \<noteq> ''method''))
   \<and> (\<not> truthy (contextId c) \<longrightarrow>
      createMacaroon s h c = createMacaroon s h (c\<lparr>contextId := JUndefined\<rparr>) \<and>
      (\<forall>x\<in>set (mac_caveats (createMacaroon s h c)). caveat_key x \<noteq> ''context''))
   \<and> (\<not> truthy (agentId c) \<longrightarrow>
      createMacaroon s h c = createMacaroon s h (c\<lparr>agentId := JUndefined\<rparr>) \<and>
      (\<forall>x\<in>set (mac_caveats (createMacaroon s h c)). caveat_key x \<noteq> ''agent''))
   \<and> (\<not> truthy (maxActions c) \<longrightarrow>
      createMacaroon s h c = createMacaroon s h (c\<lparr>maxActions := JUndefined\<rparr>) \<and>
      (\<forall>x\<in>set (mac_caveats (createMacaroon s h c)). caveat_key x \<noteq> ''max_actions''))"
  using omitted_expiresAt [of c s h] omitted_endpoint [of c s h] omitted_method [of c s h]
    omitted_contextId [of c s h] omitted_agentId [of c s h] omitted_maxActions [of c s h]
    falsy_expiry_never_expired [of c s' s h ctx now]
  by blast

text \<open>An instance: \<^verbatim>\<open>expiresAt = 0\<close>, empty strings and \<^verbatim>\<open>maxActions = 0\<close>.\<close>

theorem falsy_options_witness:
  "\<not> truthy (JNum 0) \<and> \<not> truthy (JStr [])
   \<and> createMacaroon ''test-secret'' ''abc''
         \<lparr>expiresAt = JNum 0, endpoint = JStr [], method_opt = JStr [], contextId = JStr [],
          agentId = JStr [], maxActions = JNum 0\<rparr>
       = createMacaroon ''test-secret'' ''abc''
         \<lparr>expiresAt = JUndefined, endpoint = JStr [], method_opt = JStr [], contextId = JStr [],
          agentId = JStr [], maxActions = JNum 0\<rparr>
   \<and> verifyMacaroon ''test-secret''
         (createMacaroon ''test-secret'' ''abc''
            \<lparr>expiresAt = JNum 0, endpoint = JStr [], method_opt = JStr [], contextId = JStr [],
             agentId = JStr [], maxActions = JNum 0\<rparr>)
         \<lparr>ctx_endpoint = None, ctx_method = None, ctx_contextId = None, ctx_agentId = None\<rparr>
         1700000000000
       \<noteq> Inr (Invalid ''Macaroon expired'')"
proof -
  let ?c = "\<lparr>expiresAt = JNum 0, endpoint = JStr [], method_opt = JStr [], contextId = JStr [],
             agentId = JStr [], maxActions = JNum 0\<rparr>"
  let ?ctx = "\<lparr>ctx_endpoint = None, ctx_method = None, ctx_contextId = None, ctx_agentId = None\<rparr>"
  have f: "\<not> truthy (expiresAt ?c)" by simp
  from falsy_options_emit_no_caveat
         [of ?c "''test-secret''" "''abc''" "''test-secret''" ?ctx 1700000000000] f
  have "createMacaroon ''test-secret'' ''abc'' ?c
          = createMacaroon ''test-secret'' ''abc'' (?c\<lparr>expiresAt := JUndefined\<rparr>)
        \<and> verifyMacaroon ''test-secret'' (createMacaroon ''test-secret'' ''abc'' ?c) ?ctx
              1700000000000 \<noteq> Inr (Invalid ''Macaroon expired'')"
    by blast
  moreover have "?c\<lparr>expiresAt := JUndefined\<rparr>
      = \<lparr>expiresAt = JUndefined, endpoint = JStr [], method_opt = JStr [], contextId = JStr [],
         agentId = JStr [], maxActions = JNum 0\<rparr>"
    by simp
  moreover have "\<not> truthy (JNum 0) \<and> \<not> truthy (JStr [])"
    by simp
  ultimately show ?thesis by metis
qed

subsection \<open>A test vector: the digest of the single byte 0\<close>

lemma replicate_numeral_unfold: "replicate (numeral k) x = x # replicate (pred_numeral k) x"
  by (simp add: numeral_eq_Suc)

lemma pad_zero_byte:
  "pad [0] =
     [0, 128, 0, 0, 0, 0, 0, 0, 0, 0, 0, 0, 0, 0, 0, 0,
      0, 0, 0, 0, 0, 0, 0, 0, 0, 0, 0, 0, 0, 0, 0, 0,
      0, 0, 0, 0, 0, 0, 0, 0, 0, 0, 0, 0, 0, 0, 0, 0,
      0, 0, 0, 0, 0, 0, 0, 0, 0, 0, 0, 0, 0, 0, 0, 8]"
  by (simp add: pad_def length_bytes_def word_bytes_def replicate_numeral_unfold)

lemma compress_zero_byte:
  "compress sha_H0
     [0, 128, 0, 0, 0, 0, 0, 0, 0, 0, 0, 0, 0, 0, 0, 0,
      0, 0, 0, 0, 0, 0, 0, 0, 0, 0, 0, 0, 0, 0, 0, 0,
      0, 0, 0, 0, 0, 0, 0, 0, 0, 0, 0, 0, 0, 0, 0, 0,
      0, 0, 0, 0, 0, 0, 0, 0, 0, 0, 0, 0, 0, 0, 0, 8]
   = (1848904604, 4289952408, 2628076774, 3145206316,
      2022710591, 3006740598, 2232525574, 397385757)"
  by (simp add: compress_def sha_K_def sha_H0_def next_w_def add32_def rotr_def shr_def
        ssig0_def ssig1_def bsig0_def bsig1_def ch_def maj_def)

lemma chunks_one_block: "length bs = 64 \<Longrightarrow> chunks bs hs = compress hs bs"
  by (subst chunks.simps) (simp add: chunks.simps [of "[]"])

lemma sha256_zero_byte:
  "hex_encode (sha256 [0]) = ''6e340b9cffb37a989ca544e6bb780a2c78901d3fb33738768511a30617afa01d''"
proof -
  have "chunks (pad [0]) sha_H0 =
          (1848904604, 4289952408, 2628076774, 3145206316,
           2022710591, 3006740598, 2232525574, 397385757)"
    unfolding pad_zero_byte by (subst chunks_one_block) (simp_all add: compress_zero_byte)
  then have "sha256 [0] =
      [110, 52, 11, 156, 255, 179, 122, 152, 156, 165, 68, 230, 187, 120, 10, 44,
       120, 144, 29, 63, 179, 55, 56, 118, 133, 17, 163, 6, 23, 175, 160, 29]"
    by (simp add: sha256_def word_bytes_def)
  then show ?thesis
    by (simp add: hex_encode_def hexdigit_def)
qed

subsection \<open>Preimage verification\<close>

lemma hex_decode_00: "hex_decode ''00'' = [0]"
  by (simp add: hexval_def)

lemma verifyPreimage_zero_byte:
  "verifyPreimage ''00'' ''6e340b9cffb37a989ca544e6bb780a2c78901d3fb33738768511a30617afa01d''"
  by (simp only: verifyPreimage_def hex_decode_00 sha256_zero_byte)

text \<open>
  Claim C8, as the code has it. \<^verbatim>\<open>verifyPreimage(p, h)\<close> is true exactly when \<open>h\<close> is the
  lower-case hex text of the SHA-256 digest of the hex-decoded preimage. When it is true,
  \<open>h\<close> hex-decodes to that digest, so every \<open>h\<close> that does not hex-decode to the digest is
  rejected; and the lower-case hex text of the digest is always accepted.
\<close>

theorem verifyPreimage_canonical_hex:
  "(verifyPreimage p h \<longleftrightarrow> h = hex_encode (sha256 (hex_decode p)))
   \<and> (verifyPreimage p h \<longrightarrow> hex_decode h = sha256 (hex_decode p))
   \<and> verifyPreimage p (hex_encode (sha256 (hex_decode p)))"
proof -
  have "hex_decode (hex_encode (sha256 (hex_decode p))) = sha256 (hex_decode p)"
    by (rule hex_decode_encode_bytes) (rule sha256_lt)
  then show ?thesis
    by (auto simp: verifyPreimage_def)
qed

text \<open>An instance: the preimage \<^verbatim>\<open>00\<close> and the digest of the byte 0.\<close>

theorem verifyPreimage_witness:
  "verifyPreimage ''00'' ''6e340b9cffb37a989ca544e6bb780a2c78901d3fb33738768511a30617afa01d''
   \<and> hex_decode ''6e340b9cffb37a989ca544e6bb780a2c78901d3fb33738768511a30617afa01d''
       = sha256 (hex_decode ''00'')"
proof -
  have v: "verifyPreimage ''00''
             ''6e340b9cffb37a989ca544e6bb780a2c78901d3fb33738768511a30617afa01d''"
    by (rule verifyPreimage_zero_byte)
  from verifyPreimage_canonical_hex
         [of "''00''" "''6e340b9cffb37a989ca544e6bb780a2c78901d3fb33738768511a30617afa01d''"] v
  have "hex_decode ''6e340b9cffb37a989ca544e6bb780a2c78901d3fb33738768511a30617afa01d''
          = sha256 (hex_decode ''00'')"
    by blast
  with v show ?thesis by blast
qed

text \<open>
  The equivalence with the comparison of decoded bytes fails: the upper-case spelling of
  the digest hex-decodes to the digest of the preimage, and is rejected, because the code
  compares hex strings.
\<close>

theorem verifyPreimage_counterexample:
  "sha256 (hex_decode ''00'')
     = hex_decode ''6E340B9CFFB37A989CA544E6BB780A2C78901D3FB33738768511A30617AFA01D''
   \<and> \<not> verifyPreimage ''00''
         ''6E340B9CFFB37A989CA544E6BB780A2C78901D3FB33738768511A30617AFA01D''"
proof
  have "hex_decode (hex_encode (sha256 [0])) = sha256 [0]"
    by (rule hex_decode_encode_bytes) (rule sha256_lt)
  then have "sha256 [0]
      = hex_decode ''6e340b9cffb37a989ca544e6bb780a2c78901d3fb33738768511a30617afa01d''"
    by (simp only: sha256_zero_byte)
  also have "\<dots> = hex_decode ''6E340B9CFFB37A989CA544E6BB780A2C78901D3FB33738768511A30617AFA01D''"
    by (simp add: hexval_def)
  finally show "sha256 (hex_decode ''00'')
     = hex_decode ''6E340B9CFFB37A989CA544E6BB780A2C78901D3FB33738768511A30617AFA01D''"
    by (simp only: hex_decode_00)
next
  show "\<not> verifyPreimage ''00''
         ''6E340B9CFFB37A989CA544E6BB780A2C78901D3FB33738768511A30617AFA01D''"
    unfolding verifyPreimage_def hex_decode_00 sha256_zero_byte by simp
qed

subsection \<open>The endpoint caveat\<close>

lemma endpoint_example_caveats:
  "mac_caveats (createMacaroon sec h
      \<lparr>expiresAt = JUndefined, endpoint = JStr ''/api/v1/comments'', method_opt = JUndefined,
       contextId = JUndefined, agentId = JUndefined, maxActions = JUndefined\<rparr>)
   = [''endpoint = /api/v1/comments'']"
  by (simp add: createMacaroon_def caveatStrings_def caveat_string_def)

lemma endpoint_example_signature:
  "chain_sig sec (mac_id (createMacaroon sec h c)) (mac_caveats (createMacaroon sec h c))
     = mac_signature (createMacaroon sec h c)"
  by (simp add: createMacaroon_def)

lemma endpoint_example_key:
  "caveat_key ''endpoint = /api/v1/comments'' = ''endpoint''
   \<and> caveat_value ''endpoint = /api/v1/comments'' = Some ''/api/v1/comments''"
  by (simp add: caveat_key_def caveat_value_def js_split_def)

text \<open>
  Claim C5, as the code has it. Take a macaroon with an \<^verbatim>\<open>endpoint\<close> caveat that has a single
  separator: the caveat is \<^verbatim>\<open>endpoint = <value>\<close> and the value contains no further
  \<^verbatim>\<open>" = "\<close>, so that the value read by \<^verbatim>\<open>verifyMacaroon\<close> is the whole value carried. When
  the request context supplies a non-empty endpoint that differs from the value,
  \<^verbatim>\<open>verifyMacaroon\<close> does not return valid, and it returns
  \<^verbatim>\<open>Endpoint mismatch: expected <value>\<close> when the signature is right and the caveats before
  it pass. When the request context supplies no endpoint (absent or empty) endpoint
  caveats are not checked: a correctly signed macaroon whose caveats are all endpoint
  caveats is valid.
\<close>

theorem endpoint_caveat_checked_when_supplied:
  "(chain_sig sec (mac_id m) (mac_caveats m) = mac_signature m \<longrightarrow>
      mac_caveats m = pre @ c # post \<longrightarrow>
      check_caveats ctx now pre = Inr Valid \<longrightarrow>
      c = ''endpoint = '' @ v \<longrightarrow>
      js_split '' = '' c = [''endpoint'', v] \<longrightarrow>
      truthy_str (ctx_endpoint ctx) \<longrightarrow>
      ctx_endpoint ctx \<noteq> Some v \<longrightarrow>
      verifyMacaroon sec m ctx now =
        Inr (Invalid (''Endpoint mismatch: expected '' @ v)))
   \<and> (c \<in> set (mac_caveats m) \<longrightarrow>
      c = ''endpoint = '' @ v \<longrightarrow>
      js_split '' = '' c = [''endpoint'', v] \<longrightarrow>
      truthy_str (ctx_endpoint ctx) \<longrightarrow>
      ctx_endpoint ctx \<noteq> Some v \<longrightarrow>
      verifyMacaroon sec m ctx now \<noteq> Inr Valid)
   \<and> (chain_sig sec (mac_id m) (mac_caveats m) = mac_signature m \<longrightarrow>
      (\<forall>x\<in>set (mac_caveats m). caveat_key x = ''endpoint'') \<longrightarrow>
      \<not> truthy_str (ctx_endpoint ctx) \<longrightarrow>
      verifyMacaroon sec m ctx now = Inr Valid)"
proof (intro conjI impI)
  assume sg: "chain_sig sec (mac_id m) (mac_caveats m) = mac_signature m"
    and cs: "mac_caveats m = pre @ c # post"
    and pre: "check_caveats ctx now pre = Inr Valid"
    and sp: "js_split '' = '' c = [''endpoint'', v]"
    and sup: "truthy_str (ctx_endpoint ctx)"
    and ne: "ctx_endpoint ctx \<noteq> Some v"
  from sp have key: "caveat_key c = ''endpoint''" and val: "caveat_value c = Some v"
    by (simp_all add: caveat_key_def caveat_value_def)
  have "check_caveat ctx now c = Inr (Invalid (''Endpoint mismatch: expected '' @ v))"
    using key val sup ne by (simp add: endpoint_caveat_check)
  then have "check_caveats ctx now (c # post) =
          Inr (Invalid (''Endpoint mismatch: expected '' @ v))"
    by simp
  with pre have "check_caveats ctx now (pre @ c # post) =
          Inr (Invalid (''Endpoint mismatch: expected '' @ v))"
    by (simp add: check_caveats_append)
  with sg cs show "verifyMacaroon sec m ctx now =
        Inr (Invalid (''Endpoint mismatch: expected '' @ v))"
    by (simp add: verifyMacaroon_def)
next
  assume mem: "c \<in> set (mac_caveats m)"
    and sp: "js_split '' = '' c = [''endpoint'', v]"
    and sup: "truthy_str (ctx_endpoint ctx)"
    and ne: "ctx_endpoint ctx \<noteq> Some v"
  from sp have key: "caveat_key c = ''endpoint''" and val: "caveat_value c = Some v"
    by (simp_all add: caveat_key_def caveat_value_def)
  show "verifyMacaroon sec m ctx now \<noteq> Inr Valid"
  proof
    assume v: "verifyMacaroon sec m ctx now = Inr Valid"
    then have "check_caveats ctx now (mac_caveats m) = Inr Valid"
      by (simp add: verifyMacaroon_def split: if_splits)
    from check_caveats_valid_all [OF this mem] have "check_caveat ctx now c = Inr Valid" .
    with key val sup ne show False by (simp add: endpoint_caveat_check)
  qed
next
  assume sg: "chain_sig sec (mac_id m) (mac_caveats m) = mac_signature m"
    and all: "\<forall>x\<in>set (mac_caveats m). caveat_key x = ''endpoint''"
    and nosup: "\<not> truthy_str (ctx_endpoint ctx)"
  have "\<forall>x\<in>set (mac_caveats m). check_caveat ctx now x = Inr Valid"
    using all nosup by (simp add: endpoint_caveat_check)
  then have "check_caveats ctx now (mac_caveats m) = Inr Valid"
    by (rule check_caveats_all_valid)
  with sg show "verifyMacaroon sec m ctx now = Inr Valid"
    by (simp add: verifyMacaroon_def)
qed

lemma endpoint_example_split:
  "js_split '' = '' ''endpoint = /api/v1/comments'' = [''endpoint'', ''/api/v1/comments'']"
  by (simp add: js_split_def)

text \<open>An instance: a macaroon bound to \<^verbatim>\<open>/api/v1/comments\<close>, presented at another endpoint
  and presented with an empty endpoint.\<close>

theorem endpoint_caveat_witness:
  "verifyMacaroon ''test-secret''
     (createMacaroon ''test-secret'' ''abc''
        \<lparr>expiresAt = JUndefined, endpoint = JStr ''/api/v1/comments'', method_opt = JUndefined,
         contextId = JUndefined, agentId = JUndefined, maxActions = JUndefined\<rparr>)
     \<lparr>ctx_endpoint = Some ''/api/v1/other'', ctx_method = None, ctx_contextId = None,
      ctx_agentId = None\<rparr> 0
   = Inr (Invalid ''Endpoint mismatch: expected /api/v1/comments'')
   \<and> verifyMacaroon ''test-secret''
     (createMacaroon ''test-secret'' ''abc''
        \<lparr>expiresAt = JUndefined, endpoint = JStr ''/api/v1/comments'', method_opt = JUndefined,
         contextId = JUndefined, agentId = JUndefined, maxActions = JUndefined\<rparr>)
     \<lparr>ctx_endpoint = Some [], ctx_method = None, ctx_contextId = None,
      ctx_agentId = None\<rparr> 0
   = Inr Valid"
proof -
  let ?c = "\<lparr>expiresAt = JUndefined, endpoint = JStr ''/api/v1/comments'',
             method_opt = JUndefined, contextId = JUndefined, agentId = JUndefined,
             maxActions = JUndefined\<rparr>"
  let ?m = "createMacaroon ''test-secret'' ''abc'' ?c"
  let ?ctx = "\<lparr>ctx_endpoint = Some ''/api/v1/other'', ctx_method = None, ctx_contextId = None,
               ctx_agentId = None\<rparr>"
  have h1: "chain_sig ''test-secret'' (mac_id ?m) (mac_caveats ?m) = mac_signature ?m"
    by (rule endpoint_example_signature)
  have h2: "mac_caveats ?m = [] @ ''endpoint = /api/v1/comments'' # []"
    by (simp only: endpoint_example_caveats append_Nil)
  have h3: "check_caveats ?ctx 0 [] = Inr Valid" by simp
  have h4: "''endpoint = /api/v1/comments'' = ''endpoint = '' @ ''/api/v1/comments''"
    by simp
  have h4': "js_split '' = '' ''endpoint = /api/v1/comments''
               = [''endpoint'', ''/api/v1/comments'']"
    by (rule endpoint_example_split)
  have h5: "truthy_str (ctx_endpoint ?ctx)" by simp
  have h6: "ctx_endpoint ?ctx \<noteq> Some ''/api/v1/comments''"
    by simp
  from endpoint_caveat_checked_when_supplied
         [of "''test-secret''" ?m "[]" "''endpoint = /api/v1/comments''" "[]" ?ctx 0
             "''/api/v1/comments''"]
       h1 h2 h3 h4 h4' h5 h6
  have "verifyMacaroon ''test-secret'' ?m ?ctx 0 =
          Inr (Invalid (''Endpoint mismatch: expected '' @ ''/api/v1/comments''))"
    by blast
  then have first: "verifyMacaroon ''test-secret'' ?m ?ctx 0 =
          Inr (Invalid ''Endpoint mismatch: expected /api/v1/comments'')"
    by simp
  let ?ctx0 = "\<lparr>ctx_endpoint = Some [], ctx_method = None, ctx_contextId = None,
                ctx_agentId = None\<rparr>"
  have g1: "\<forall>x\<in>set (mac_caveats ?m). caveat_key x = ''endpoint''"
    using endpoint_example_key by (simp only: endpoint_example_caveats) simp
  have g2: "\<not> truthy_str (ctx_endpoint ?ctx0)" by simp
  from endpoint_caveat_checked_when_supplied
         [of "''test-secret''" ?m "[]" "''endpoint = /api/v1/comments''" "[]" ?ctx0 0
             "''/api/v1/comments''"]
       h1 g1 g2
  have "verifyMacaroon ''test-secret'' ?m ?ctx0 0 = Inr Valid"
    by blast
  with first show ?thesis by blast
qed

text \<open>
  With a request context that supplies no endpoint, the same macaroon is valid: the
  caveat does not fail when the request endpoint is missing.
\<close>

theorem endpoint_caveat_counterexample:
  "verifyMacaroon ''test-secret''
     (createMacaroon ''test-secret'' ''abc''
        \<lparr>expiresAt = JUndefined, endpoint = JStr ''/api/v1/comments'', method_opt = JUndefined,
         contextId = JUndefined, agentId = JUndefined, maxActions = JUndefined\<rparr>)
     \<lparr>ctx_endpoint = None, ctx_method = Some ''POST'', ctx_contextId = Some ''thread-1'',
      ctx_agentId = Some ''agent-1''\<rparr> 0
   = Inr Valid"
proof -
  let ?m = "createMacaroon ''test-secret'' ''abc''
        \<lparr>expiresAt = JUndefined, endpoint = JStr ''/api/v1/comments'', method_opt = JUndefined,
         contextId = JUndefined, agentId = JUndefined, maxActions = JUndefined\<rparr>"
  let ?ctx = "\<lparr>ctx_endpoint = None, ctx_method = Some ''POST'',
               ctx_contextId = Some ''thread-1'', ctx_agentId = Some ''agent-1''\<rparr>"
  have sg: "chain_sig ''test-secret'' (mac_id ?m) (mac_caveats ?m) = mac_signature ?m"
    by (rule endpoint_example_signature)
  have "check_caveats ?ctx 0 (mac_caveats ?m) = Inr Valid"
    unfolding endpoint_example_caveats using endpoint_example_key
    by (simp add: check_caveat_def)
  with sg show ?thesis
    unfolding verifyMacaroon_def by simp
qed

subsection \<open>Pricing\<close>

lemma actions_of_record_action:
  "actions_of (record_action st a c now) a' c' =
     actions_of st a' c' + (if a' = a \<and> c' = c then 1 else 0)"
  by (simp add: actions_of_def record_action_def update_conv' split: option.splits)

lemma calculate_state:
  "snd (calculate cfg st a c ts d now) = (if d then st else record_action st a c now)"
  by (simp add: calculate_def Let_def split: prod.splits)


lemma run_Cons:
  "run cfg st (c # cs) =
     fst (calculate cfg st (c_agent c) (c_context c) (c_trust c) (c_dryRun c) (c_now c)) #
     run cfg (snd (calculate cfg st (c_agent c) (c_context c) (c_trust c) (c_dryRun c) (c_now c))) cs"
  by (simp add: case_prod_unfold)


lemma actions_of_new_engine: "actions_of new_engine a c = 0"
  by (simp add: actions_of_def new_engine_def)



lemma scenario_cost_0: "progressiveCost scenario_config 0 = 1"
  by (simp add: progressiveCost_def scenario_config_def DEFAULT_PRICING_def)

lemma scenario_cost_1: "progressiveCost scenario_config 1 = 2"
proof -
  have "\<lceil>(3 / 2 :: rat)\<rceil> = 2"
    by (rule ceiling_unique) simp_all
  then show ?thesis
    by (simp add: progressiveCost_def scenario_config_def DEFAULT_PRICING_def power_divide)
qed

lemma scenario_cost_2: "progressiveCost scenario_config 2 = 3"
proof -
  have "\<lceil>(9 / 4 :: rat)\<rceil> = 3"
    by (rule ceiling_unique) simp_all
  then show ?thesis
    by (simp add: progressiveCost_def scenario_config_def DEFAULT_PRICING_def power_divide)
qed

lemma scenario_cost_3: "progressiveCost scenario_config 3 = 4"
proof -
  have "\<lceil>(27 / 8 :: rat)\<rceil> = 4"
    by (rule ceiling_unique) simp_all
  then show ?thesis
    by (simp add: progressiveCost_def scenario_config_def DEFAULT_PRICING_def power_divide)
qed

lemma scenario_cost_4: "progressiveCost scenario_config 4 = 6"
proof -
  have "\<lceil>(81 / 16 :: rat)\<rceil> = 6"
    by (rule ceiling_unique) simp_all
  then show ?thesis
    by (simp add: progressiveCost_def scenario_config_def DEFAULT_PRICING_def power_divide)
qed

lemma scenario_cost_5: "progressiveCost scenario_config 5 = 8"
proof -
  have "\<lceil>(243 / 32 :: rat)\<rceil> = 8"
    by (rule ceiling_unique) simp_all
  then show ?thesis
    by (simp add: progressiveCost_def scenario_config_def DEFAULT_PRICING_def power_divide)
qed

lemma scenario_cost_6: "progressiveCost scenario_config 6 = 12"
proof -
  have "\<lceil>(729 / 64 :: rat)\<rceil> = 12"
    by (rule ceiling_unique) simp_all
  then show ?thesis
    by (simp add: progressiveCost_def scenario_config_def DEFAULT_PRICING_def power_divide)
qed

lemma scenario_cost_7: "progressiveCost scenario_config 7 = 18"
proof -
  have "\<lceil>(2187 / 128 :: rat)\<rceil> = 18"
    by (rule ceiling_unique) simp_all
  then show ?thesis
    by (simp add: progressiveCost_def scenario_config_def DEFAULT_PRICING_def power_divide)
qed

lemma scenario_cost_8: "progressiveCost scenario_config 8 = 26"
proof -
  have "\<lceil>(6561 / 256 :: rat)\<rceil> = 26"
    by (rule ceiling_unique) simp_all
  then show ?thesis
    by (simp add: progressiveCost_def scenario_config_def DEFAULT_PRICING_def power_divide)
qed

lemma scenario_cost_9: "progressiveCost scenario_config 9 = 39"
proof -
  have "\<lceil>(19683 / 512 :: rat)\<rceil> = 39"
    by (rule ceiling_unique) simp_all
  then show ?thesis
    by (simp add: progressiveCost_def scenario_config_def DEFAULT_PRICING_def power_divide)
qed

lemma scenario_cost_10: "progressiveCost scenario_config 10 = 50"
proof -
  have "\<lceil>(59049 / 1024 :: rat)\<rceil> = 58"
    by (rule ceiling_unique) simp_all
  then show ?thesis
    by (simp add: progressiveCost_def scenario_config_def DEFAULT_PRICING_def power_divide)
qed


lemma scenario_sats:
  "sats (fst (calculate scenario_config st a c ts d now)) =
     progressiveCost scenario_config (actions_of st a c)"
  by (simp add: calculate_def Let_def trust_step_def cooldown_step_def scenario_config_def
        DEFAULT_PRICING_def split: prod.splits option.splits)

lemma scenario_sequence:
  "map sats (run scenario_config new_engine
     [commit_call ts0 t0, commit_call ts1 t1, commit_call ts2 t2, commit_call ts3 t3, commit_call ts4 t4,
      commit_call ts5 t5, commit_call ts6 t6, commit_call ts7 t7, commit_call ts8 t8, commit_call ts9 t9,
      dry_call ts10 t10])
   = [1, 2, 3, 4, 6, 8, 12, 18, 26, 39, 50]"
proof -
  have costs:
      "progressiveCost scenario_config (Suc 0) = 2"
      "progressiveCost scenario_config (Suc (Suc 0)) = 3"
      "progressiveCost scenario_config (Suc (Suc (Suc 0))) = 4"
      "progressiveCost scenario_config (Suc (Suc (Suc (Suc 0)))) = 6"
      "progressiveCost scenario_config (Suc (Suc (Suc (Suc (Suc 0))))) = 8"
      "progressiveCost scenario_config (Suc (Suc (Suc (Suc (Suc (Suc 0)))))) = 12"
      "progressiveCost scenario_config (Suc (Suc (Suc (Suc (Suc (Suc (Suc 0))))))) = 18"
      "progressiveCost scenario_config (Suc (Suc (Suc (Suc (Suc (Suc (Suc (Suc 0)))))))) = 26"
      "progressiveCost scenario_config (Suc (Suc (Suc (Suc (Suc (Suc (Suc (Suc (Suc 0))))))))) = 39"
      "progressiveCost scenario_config (Suc (Suc (Suc (Suc (Suc (Suc (Suc (Suc (Suc (Suc 0)))))))))) = 50"
    using scenario_cost_1 scenario_cost_2 scenario_cost_3 scenario_cost_4 scenario_cost_5
      scenario_cost_6 scenario_cost_7 scenario_cost_8 scenario_cost_9 scenario_cost_10
    by (simp_all add: eval_nat_numeral)
  show ?thesis
    by (simp add: run_Cons scenario_sats calculate_state actions_of_record_action
          actions_of_new_engine commit_call_def dry_call_def scenario_cost_0 costs
          del: run.simps(2))
qed

text \<open>
  Claim C4, as the code has it. With base 1, multiplier 1.5, cap 50, cooldown and trust
  disabled, ten consecutive committed calls \<^verbatim>\<open>calculate("a", "t")\<close> return the prices
  1, 2, 3, 4, 6, 8, 12, 18, 26, 39, each the ceiling of \<open>1.5 ^ k\<close> for \<open>k = 0, \<dots>, 9\<close>, and
  an eleventh call as a dry run returns the cap 50, whatever the clock values and the
  trust scores passed.
\<close>

theorem progression_scenario:
  "map sats (run scenario_config new_engine
     [commit_call ts0 t0, commit_call ts1 t1, commit_call ts2 t2, commit_call ts3 t3,
      commit_call ts4 t4, commit_call ts5 t5, commit_call ts6 t6, commit_call ts7 t7,
      commit_call ts8 t8, commit_call ts9 t9, dry_call ts10 t10])
   = [1, 2, 3, 4, 6, 8, 12, 18, 26, 39, 50]"
  by (rule scenario_sequence)

text \<open>An instance with concrete clock values.\<close>

theorem progression_scenario_witness:
  "map sats (run scenario_config new_engine
     [commit_call None 1000, commit_call None 2000, commit_call None 3000,
      commit_call None 4000, commit_call None 5000, commit_call None 6000,
      commit_call None 7000, commit_call None 8000, commit_call None 9000,
      commit_call None 10000, dry_call None 11000])
   = [1, 2, 3, 4, 6, 8, 12, 18, 26, 39, 50]"
  by (rule progression_scenario)

text \<open>
  The sequence of the specification has 17 at the eighth call; the code returns 18, the
  ceiling of \<open>1.5 ^ 7 = 17.0859375\<close>.
\<close>

theorem progression_scenario_counterexample:
  "map sats (run scenario_config new_engine
     [commit_call None 1000, commit_call None 2000, commit_call None 3000,
      commit_call None 4000, commit_call None 5000, commit_call None 6000,
      commit_call None 7000, commit_call None 8000, commit_call None 9000,
      commit_call None 10000, dry_call None 11000])
   \<noteq> [1, 2, 3, 4, 6, 8, 12, 17, 26, 39, 50]"
  by (simp only: scenario_sequence) simp

lemma default_progressive_ge_1: "progressiveCost DEFAULT_PRICING k \<ge> 1"
proof (cases "k > 0")
  case True
  have "(0::rat) < 1 * (3 / 2) ^ k" by simp
  then have "1 \<le> \<lceil>(1::rat) * (3 / 2) ^ k\<rceil>" by (simp only: one_le_ceiling)
  then have "(1::rat) \<le> of_int \<lceil>(1::rat) * (3 / 2) ^ k\<rceil>" by linarith
  with True show ?thesis
    by (simp add: progressiveCost_def DEFAULT_PRICING_def)
next
  case False
  then show ?thesis
    by (simp add: progressiveCost_def DEFAULT_PRICING_def)
qed

lemma cooldown_step_ge_1: "p \<ge> 1 \<Longrightarrow> fst (cooldown_step cd la now p) \<ge> 1"
  by (simp add: cooldown_step_def Let_def split: option.splits)

lemma cooldown_step_zero: "fst (cooldown_step cd la now 0) = 0"
  by (simp add: cooldown_step_def)

lemma trust_step_free:
  "td_enabled td \<Longrightarrow> ts \<ge> freeAbove td \<Longrightarrow> fst (trust_step td (Some ts) p) = 0"
  by (simp add: trust_step_def)

lemma trust_step_ge_1:
  "p \<ge> 1 \<Longrightarrow> ts < freeAbove td \<Longrightarrow> fst (trust_step td (Some ts) p) \<ge> 1"
  by (simp add: trust_step_def Let_def)

lemma trust_step_none: "fst (trust_step td None p) = p"
  by (simp add: trust_step_def)

lemma calculate_sats:
  "sats (fst (calculate cfg st a c ts d now)) =
     fst (cooldown_step (cooldown cfg) (map_of (agentLastAction st) a) now
       (fst (trust_step (trustDiscount cfg) ts (progressiveCost cfg (actions_of st a c)))))"
  by (simp add: calculate_def Let_def split: prod.splits)

text \<open>
  Claim C6. Under the default configuration, for every state of the engine, agent,
  context and clock value: a trust score of at least \<^verbatim>\<open>freeAbove\<close> gives the price 0, and
  every lower score and an unknown or missing score give a price of at least 1. The trust
  discount and the cooldown bonus never bring the price to 0.
\<close>

theorem default_price_free_or_at_least_one:
  "(ts \<ge> freeAbove (trustDiscount DEFAULT_PRICING) \<longrightarrow>
      sats (fst (calculate DEFAULT_PRICING st a c (Some ts) d now)) = 0)
   \<and> (ts < freeAbove (trustDiscount DEFAULT_PRICING) \<longrightarrow>
      sats (fst (calculate DEFAULT_PRICING st a c (Some ts) d now)) \<ge> 1)
   \<and> sats (fst (calculate DEFAULT_PRICING st a c None d now)) \<ge> 1"
proof (intro conjI impI)
  assume "ts \<ge> freeAbove (trustDiscount DEFAULT_PRICING)"
  then have "fst (trust_step (trustDiscount DEFAULT_PRICING) (Some ts)
               (progressiveCost DEFAULT_PRICING (actions_of st a c))) = 0"
    by (intro trust_step_free) (simp_all add: DEFAULT_PRICING_def)
  then show "sats (fst (calculate DEFAULT_PRICING st a c (Some ts) d now)) = 0"
    by (simp add: calculate_sats cooldown_step_zero)
next
  assume "ts < freeAbove (trustDiscount DEFAULT_PRICING)"
  then have "fst (trust_step (trustDiscount DEFAULT_PRICING) (Some ts)
               (progressiveCost DEFAULT_PRICING (actions_of st a c))) \<ge> 1"
    by (intro trust_step_ge_1 default_progressive_ge_1)
  then show "sats (fst (calculate DEFAULT_PRICING st a c (Some ts) d now)) \<ge> 1"
    by (simp add: calculate_sats cooldown_step_ge_1)
next
  show "sats (fst (calculate DEFAULT_PRICING st a c None d now)) \<ge> 1"
    by (simp add: calculate_sats trust_step_none cooldown_step_ge_1 default_progressive_ge_1)
qed

text \<open>An instance: the scores 85 and 50 on a fresh engine.\<close>

theorem default_price_witness:
  "(85::rat) \<ge> freeAbove (trustDiscount DEFAULT_PRICING)
   \<and> sats (fst (calculate DEFAULT_PRICING new_engine ''a1'' ''t1'' (Some 85) False 1000)) = 0
   \<and> (50::rat) < freeAbove (trustDiscount DEFAULT_PRICING)
   \<and> sats (fst (calculate DEFAULT_PRICING new_engine ''a1'' ''t1'' (Some 50) False 1000)) \<ge> 1"
proof -
  have h1: "(85::rat) \<ge> freeAbove (trustDiscount DEFAULT_PRICING)"
    by (simp add: DEFAULT_PRICING_def)
  have h2: "(50::rat) < freeAbove (trustDiscount DEFAULT_PRICING)"
    by (simp add: DEFAULT_PRICING_def)
  from default_price_free_or_at_least_one [of 85 new_engine "''a1''" "''t1''" False 1000] h1
  have c1: "sats (fst (calculate DEFAULT_PRICING new_engine ''a1'' ''t1'' (Some 85) False 1000)) = 0"
    by blast
  from default_price_free_or_at_least_one [of 50 new_engine "''a1''" "''t1''" False 1000] h2
  have c2: "sats (fst (calculate DEFAULT_PRICING new_engine ''a1'' ''t1'' (Some 50) False 1000)) \<ge> 1"
    by blast
  from h1 c1 h2 c2 show ?thesis by blast
qed

subsection \<open>Trust scores from the attestation network\<close>

lemma getScore_query:
  "customResolver tr = None \<Longrightarrow> \<not> cache_fresh tr a now \<Longrightarrow>
   fst (getScore tr net a now) = queryNostr net a now"
  by (simp add: getScore_def Let_def)

lemma queryNostr_None: "queryNostr net a now = None \<longleftrightarrow> collect_attestations a net = []"
  by (simp add: queryNostr_def Let_def)

lemma collect_all_self:
  "\<forall>ev\<in>set evs. ev_pubkey ev = a \<Longrightarrow> collect_attestations a (Some evs # rest) = []"
  by (simp add: filter_empty_conv)

text \<open>
  Claim C9, as the code has it. Without a custom resolver and without a fresh cache entry,
  \<^verbatim>\<open>getScore\<close> returns unknown exactly when no attestation by another key was collected
  from the first relay that answers. In particular it returns unknown, not 0, when
  events were seen and every one of them was a self-attestation.
\<close>

theorem getScore_unknown_without_other_attesters:
  "(customResolver tr = None \<longrightarrow> \<not> cache_fresh tr a now \<longrightarrow>
      (fst (getScore tr net a now) = None \<longleftrightarrow> collect_attestations a net = []))
   \<and> (customResolver tr = None \<longrightarrow> \<not> cache_fresh tr a now \<longrightarrow>
      (\<forall>ev\<in>set evs. ev_pubkey ev = a) \<longrightarrow>
      fst (getScore tr (Some evs # rest) a now) = None)"
  using collect_all_self [of evs a rest]
  by (simp add: getScore_query queryNostr_None)

text \<open>An instance: one relay that delivers a single self-attestation.\<close>

theorem getScore_self_attested_witness:
  "customResolver \<lparr>customResolver = None, cacheTtlMs = 300000, cache = []\<rparr> = None
   \<and> \<not> cache_fresh \<lparr>customResolver = None, cacheTtlMs = 300000, cache = []\<rparr> ''alice''
         1700000100000
   \<and> ev_pubkey \<lparr>ev_pubkey = ''alice'', ev_created_at = 1700000000,
                  ev_tags = [[''l'', ''general-trust'', ''ai.wot'']]\<rparr> = ''alice''
   \<and> fst (getScore \<lparr>customResolver = None, cacheTtlMs = 300000, cache = []\<rparr>
         [Some [\<lparr>ev_pubkey = ''alice'', ev_created_at = 1700000000,
                  ev_tags = [[''l'', ''general-trust'', ''ai.wot'']]\<rparr>]]
         ''alice'' 1700000100000) = None"
proof -
  let ?tr = "\<lparr>customResolver = None, cacheTtlMs = 300000, cache = []\<rparr>"
  let ?evs = "[\<lparr>ev_pubkey = ''alice'', ev_created_at = 1700000000,
                 ev_tags = [[''l'', ''general-trust'', ''ai.wot'']]\<rparr>]"
  have h1: "customResolver ?tr = None" by simp
  have h2: "\<not> cache_fresh ?tr ''alice'' 1700000100000" by (simp add: cache_fresh_def)
  have h3: "\<forall>ev\<in>set ?evs. ev_pubkey ev = ''alice''" by simp
  from getScore_unknown_without_other_attesters
         [of ?tr "''alice''" 1700000100000 _ ?evs "[]"] h1 h2 h3
  have "fst (getScore ?tr (Some ?evs # []) ''alice'' 1700000100000) = None"
    by blast
  with h1 h2 show ?thesis by simp
qed

text \<open>For that input the result is not the score 0.\<close>

theorem getScore_self_attested_counterexample:
  "fst (getScore \<lparr>customResolver = None, cacheTtlMs = 300000, cache = []\<rparr>
         [Some [\<lparr>ev_pubkey = ''alice'', ev_created_at = 1700000000,
                  ev_tags = [[''l'', ''general-trust'', ''ai.wot'']]\<rparr>]]
         ''alice'' 1700000100000) \<noteq> Some 0"
  by (simp add: getScore_def cache_fresh_def queryNostr_def)

subsection \<open>Admission\<close>

lemma has_l402_example:
  "has_l402 (''L402 '' @ rest)"
  by (simp add: has_l402_def)

lemma strip_l402_example:
  "strip_l402 (''L402 eyJpZCI6IjZlMzQwYjljZmZiMzdhOTg5Y2E1NDRlNmJiNzgwYTJjNzg5MDFkM2ZiMzM3Mzg3Njg1MTFhMzA2MTdhZmEwMWQifQ==:00'')
     = ''eyJpZCI6IjZlMzQwYjljZmZiMzdhOTg5Y2E1NDRlNmJiNzgwYTJjNzg5MDFkM2ZiMzM3Mzg3Njg1MTFhMzA2MTdhZmEwMWQifQ==:00''"
  by (simp add: strip_l402_def toUpperCase_def upper_char_def ws_len_def js_whitespace_def
        skip_ws.simps)

lemma split_example:
  "js_split '':'' ''eyJpZCI6IjZlMzQwYjljZmZiMzdhOTg5Y2E1NDRlNmJiNzgwYTJjNzg5MDFkM2ZiMzM3Mzg3Njg1MTFhMzA2MTdhZmEwMWQifQ==:00''
     = [''eyJpZCI6IjZlMzQwYjljZmZiMzdhOTg5Y2E1NDRlNmJiNzgwYTJjNzg5MDFkM2ZiMzM3Mzg3Njg1MTFhMzA2MTdhZmEwMWQifQ=='', ''00'']"
  by (simp add: js_split_def)

lemma middleware_with_credentials:
  "has_l402 (auth_header req) \<Longrightarrow>
   discourseTollMiddleware rt cfg opts st req now =
     (case verifyL402 rt cfg opts st (auth_header req) req now of
        Inl e \<Rightarrow> (st, Next (no_flags\<lparr>tollError := True\<rparr>))
      | Inr (st', Inl err) \<Rightarrow> (st', Status401 err)
      | Inr (st', Inr paymentHash) \<Rightarrow>
          (st', Next (no_flags\<lparr>tollPaid := True, tollPaymentHash := Some paymentHash\<rparr>)))"
  by (simp add: discourseTollMiddleware_def Let_def)

lemma middleware_without_credentials:
  "\<not> has_l402 (auth_header req) \<Longrightarrow>
   discourseTollMiddleware rt cfg opts st req now = challenge_path rt cfg opts st req now"
  by (simp add: discourseTollMiddleware_def Let_def)

text \<open>
  Claim C1 at a failing input. The request carries \<^verbatim>\<open>Authorization: L402 <token>:00\<close>, where
  the token is the base64 text of the JSON object whose only member is \<^verbatim>\<open>id\<close>, the SHA-256
  digest of the preimage byte 0. The preimage matches the identifier; the object has no
  \<^verbatim>\<open>caveats\<close> and no \<^verbatim>\<open>signature\<close>, so the loop over the caveats in \<^verbatim>\<open>verifyMacaroon\<close>
  throws, the handler of the middleware catches the exception, and the downstream handler
  is called with \<^verbatim>\<open>tollError\<close> set: for every secret, configuration, engine state and clock
  value, without any signature having been verified.
\<close>

theorem unverified_macaroon_reaches_handler:
  "discourseTollMiddleware
     (rt\<lparr>decode_json := map_of
        [(''eyJpZCI6IjZlMzQwYjljZmZiMzdhOTg5Y2E1NDRlNmJiNzgwYTJjNzg5MDFkM2ZiMzM3Mzg3Njg1MTFhMzA2MTdhZmEwMWQifQ=='',
          JObj [(''id'',
                 JStr ''6e340b9cffb37a989ca544e6bb780a2c78901d3fb33738768511a30617afa01d'')])]\<rparr>)
     cfg opts st
     \<lparr>req_headers = [(''authorization'',
        ''L402 eyJpZCI6IjZlMzQwYjljZmZiMzdhOTg5Y2E1NDRlNmJiNzgwYTJjNzg5MDFkM2ZiMzM3Mzg3Njg1MTFhMzA2MTdhZmEwMWQifQ==:00'')],
      req_params = [], req_body = None, req_originalUrl = Some ''/api/comments'',
      req_url = ''/api/comments'', req_method = ''POST''\<rparr>
     now
   = (st, Next (no_flags\<lparr>tollError := True\<rparr>))"
proof -
  let ?hdr = "''L402 eyJpZCI6IjZlMzQwYjljZmZiMzdhOTg5Y2E1NDRlNmJiNzgwYTJjNzg5MDFkM2ZiMzM3Mzg3Njg1MTFhMzA2MTdhZmEwMWQifQ==:00''"
  let ?rt = "rt\<lparr>decode_json := map_of
        [(''eyJpZCI6IjZlMzQwYjljZmZiMzdhOTg5Y2E1NDRlNmJiNzgwYTJjNzg5MDFkM2ZiMzM3Mzg3Njg1MTFhMzA2MTdhZmEwMWQifQ=='',
          JObj [(''id'',
                 JStr ''6e340b9cffb37a989ca544e6bb780a2c78901d3fb33738768511a30617afa01d'')])]\<rparr>"
  let ?req = "\<lparr>req_headers = [(''authorization'', ?hdr)],
      req_params = [], req_body = None, req_originalUrl = Some ''/api/comments'',
      req_url = ''/api/comments'', req_method = ''POST''\<rparr>"
  have hdr: "auth_header ?req = ?hdr"
    by (simp add: auth_header_def)
  have l402: "has_l402 ?hdr"
    by (simp add: has_l402_def)
  have v: "verifyL402 ?rt cfg opts st ?hdr ?req now = Inl TypeError"
    unfolding verifyL402_def strip_l402_example split_example
    by (simp add: decodeMacaroon_def verifyPreimage_zero_byte verifyMacaroon_json_def)
  have "has_l402 (auth_header ?req)"
    by (simp only: hdr l402)
  then have "discourseTollMiddleware ?rt cfg opts st ?req now =
     (case verifyL402 ?rt cfg opts st (auth_header ?req) ?req now of
        Inl e \<Rightarrow> (st, Next (no_flags\<lparr>tollError := True\<rparr>))
      | Inr (st', Inl err) \<Rightarrow> (st', Status401 err)
      | Inr (st', Inr paymentHash) \<Rightarrow>
          (st', Next (no_flags\<lparr>tollPaid := True, tollPaymentHash := Some paymentHash\<rparr>)))"
    by (rule middleware_with_credentials)
  then show ?thesis
    by (simp only: hdr v sum.case)
qed

lemma challenge_path_state: "fst (challenge_path rt cfg opts st req now) = st"
proof -
  have "snd (calculate (pricing cfg) st (agent_of req opts) (context_of req opts)
               (trust_getScore rt (agent_of req opts)) True now) = st"
    by (simp add: calculate_state)
  then show ?thesis
    by (auto simp: challenge_path_def Let_def split: prod.splits option.splits)
qed

lemma challenge_path_outcome:
  "snd (challenge_path rt cfg opts st req now)
     \<noteq> Next (no_flags\<lparr>tollPaid := True, tollPaymentHash := Some h\<rparr>)"
  by (auto simp: challenge_path_def Let_def no_flags_def split: prod.splits option.splits)

lemma verifyL402_rejected:
  "verifyL402 rt cfg opts st hdr req now = Inr (st', Inl err) \<Longrightarrow> st' = st"
  by (auto simp: verifyL402_def Let_def split: if_splits sum.splits vresult.splits)

lemma verifyL402_accepted:
  "verifyL402 rt cfg opts st hdr req now = Inr (st', Inr h) \<Longrightarrow>
     st' = record_action st (agent_of req opts) (context_of req opts) now
     \<and> verifyMacaroon_json (secret cfg)
          (decodeMacaroon rt (js_split '':'' (strip_l402 hdr) ! 0)) (request_ctx req opts) now
         = Inr Valid
     \<and> verifyPreimage (js_split '':'' (strip_l402 hdr) ! 1) h"
  by (auto simp: verifyL402_def Let_def calculate_state
           split: if_splits sum.splits vresult.splits option.splits)

lemma verifyL402_authorized:
  "authorized_retry rt cfg opts req now \<longleftrightarrow>
     (\<exists>st' h. verifyL402 rt cfg opts st (auth_header req) req now = Inr (st', Inr h))
     \<and> has_l402 (auth_header req)"
  by (auto simp: authorized_retry_def verifyL402_def Let_def
           split: if_splits sum.splits vresult.splits option.splits)

lemma middleware_state:
  "fst (discourseTollMiddleware rt cfg opts st req now) =
     (if authorized_retry rt cfg opts req now
      then record_action st (agent_of req opts) (context_of req opts) now else st)"
proof (cases "has_l402 (auth_header req)")
  case False
  then show ?thesis
    by (simp add: middleware_without_credentials challenge_path_state authorized_retry_def)
next
  case True
  show ?thesis
  proof (cases "verifyL402 rt cfg opts st (auth_header req) req now")
    case (Inl e)
    with True have "\<not> authorized_retry rt cfg opts req now"
      using verifyL402_authorized [of rt cfg opts req now st] by simp
    with True Inl show ?thesis
      by (simp add: middleware_with_credentials)
  next
    case (Inr p)
    obtain st' r where p: "p = (st', r)" by (cases p)
    show ?thesis
    proof (cases r)
      case (Inl err)
      with Inr p have v: "verifyL402 rt cfg opts st (auth_header req) req now = Inr (st', Inl err)"
        by simp
      then have "st' = st" by (rule verifyL402_rejected)
      moreover from v have "\<not> authorized_retry rt cfg opts req now"
        using verifyL402_authorized [of rt cfg opts req now st] by simp
      ultimately show ?thesis using True v
        by (simp add: middleware_with_credentials)
    next
      case (Inr h)
      with \<open>verifyL402 rt cfg opts st (auth_header req) req now = Inr p\<close> p
      have v: "verifyL402 rt cfg opts st (auth_header req) req now = Inr (st', Inr h)"
        by simp
      from verifyL402_accepted [OF v]
      have "st' = record_action st (agent_of req opts) (context_of req opts) now" by blast
      moreover from v True have "authorized_retry rt cfg opts req now"
        using verifyL402_authorized [of rt cfg opts req now st] by blast
      ultimately show ?thesis using True v
        by (simp add: middleware_with_credentials)
    qed
  qed
qed

lemma record_action_changes: "record_action st a c now \<noteq> st"
proof
  assume "record_action st a c now = st"
  then have "actions_of (record_action st a c now) a c = actions_of st a c" by simp
  then show False by (simp add: actions_of_record_action)
qed

lemma middleware_accepted_iff:
  "has_l402 (auth_header req) \<and>
     (\<exists>h. snd (discourseTollMiddleware rt tc opts st req now) =
        Next (no_flags\<lparr>tollPaid := True, tollPaymentHash := Some h\<rparr>))
   \<longleftrightarrow> authorized_retry rt tc opts req now"
proof (cases "has_l402 (auth_header req)")
  case False
  then show ?thesis by (simp add: authorized_retry_def)
next
  case True
  show ?thesis
  proof (cases "verifyL402 rt tc opts st (auth_header req) req now")
    case (Inl e)
    with True have "\<not> authorized_retry rt tc opts req now"
      using verifyL402_authorized [of rt tc opts req now st] by simp
    with True Inl show ?thesis
      by (simp add: middleware_with_credentials no_flags_def)
  next
    case (Inr p)
    obtain st' r where p: "p = (st', r)" by (cases p)
    show ?thesis
    proof (cases r)
      case (Inl err)
      with Inr p have v: "verifyL402 rt tc opts st (auth_header req) req now = Inr (st', Inl err)"
        by simp
      then have "\<not> authorized_retry rt tc opts req now"
        using verifyL402_authorized [of rt tc opts req now st] by simp
      with True v show ?thesis
        by (simp add: middleware_with_credentials)
    next
      case (Inr h)
      with \<open>verifyL402 rt tc opts st (auth_header req) req now = Inr p\<close> p
      have v: "verifyL402 rt tc opts st (auth_header req) req now = Inr (st', Inr h)"
        by simp
      with True have "authorized_retry rt tc opts req now"
        using verifyL402_authorized [of rt tc opts req now st] by blast
      with True v show ?thesis
        by (auto simp add: middleware_with_credentials)
    qed
  qed
qed

text \<open>
  Claim C7. A dry-run \<^verbatim>\<open>calculate\<close> returns the engine unchanged, hence \<^verbatim>\<open>stats()\<close> and
  \<^verbatim>\<open>getActivityCount\<close> are unchanged for every agent and context. The branch of the
  middleware taken without L402 credentials (the free pass and the minting of a challenge)
  returns the engine unchanged. The middleware changes the engine exactly when the request
  carries L402 credentials and the downstream handler is called with \<^verbatim>\<open>tollPaid\<close> and the
  payment hash, that is, on an accepted retry; the change is then one \<^verbatim>\<open>record_action\<close> at
  the current time, which adds one action for the agent in the context and sets the last-action
  time of the agent.
\<close>

theorem pricing_state_changes_only_on_authorized_retry:
  "snd (calculate cfg st a c ts True now) = st
   \<and> stats (snd (calculate cfg st a c ts True now)) = stats st
   \<and> getActivityCount (snd (calculate cfg st a c ts True now)) a' c' = getActivityCount st a' c'
   \<and> fst (challenge_path rt tc opts st req now) = st
   \<and> (fst (discourseTollMiddleware rt tc opts st req now) \<noteq> st \<longleftrightarrow>
        has_l402 (auth_header req) \<and>
        (\<exists>h. snd (discourseTollMiddleware rt tc opts st req now) =
           Next (no_flags\<lparr>tollPaid := True, tollPaymentHash := Some h\<rparr>)))
   \<and> (fst (discourseTollMiddleware rt tc opts st req now) = st \<or>
        (\<exists>agent context.
           fst (discourseTollMiddleware rt tc opts st req now) =
             record_action st agent context now))
   \<and> getActivityCount (record_action st a c now) a c = getActivityCount st a c + 1
   \<and> map_of (agentLastAction (record_action st a c now)) a = Some now"
proof -
  have dry: "snd (calculate cfg st a c ts True now) = st"
    by (simp add: calculate_state)
  have mid: "fst (discourseTollMiddleware rt tc opts st req now) =
       (if authorized_retry rt tc opts req now
        then record_action st (agent_of req opts) (context_of req opts) now else st)"
    by (rule middleware_state)
  have chg: "fst (discourseTollMiddleware rt tc opts st req now) \<noteq> st \<longleftrightarrow>
        has_l402 (auth_header req) \<and>
        (\<exists>h. snd (discourseTollMiddleware rt tc opts st req now) =
           Next (no_flags\<lparr>tollPaid := True, tollPaymentHash := Some h\<rparr>))"
    unfolding middleware_accepted_iff by (simp add: mid record_action_changes)
  have app: "fst (discourseTollMiddleware rt tc opts st req now) = st \<or>
        (\<exists>agent context.
           fst (discourseTollMiddleware rt tc opts st req now) =
             record_action st agent context now)"
    unfolding mid by auto
  have cnt: "getActivityCount (record_action st a c now) a c = getActivityCount st a c + 1"
    by (simp add: getActivityCount_def actions_of_record_action)
  have last: "map_of (agentLastAction (record_action st a c now)) a = Some now"
    by (simp add: record_action_def update_conv')
  from dry chg app cnt last show ?thesis
    by (simp add: challenge_path_state)
qed

lemma retry_example_header:
  "js_split '':'' (strip_l402 ''L402 token:00'') = [''token'', ''00'']"
  by (simp add: strip_l402_def toUpperCase_def upper_char_def ws_len_def js_whitespace_def
        skip_ws.simps js_split_def)

text \<open>An accepted retry on a fresh engine: the macaroon has no caveats, its identifier is the
  digest of the preimage byte 0 and its signature is the one computed from the secret.\<close>

theorem authorized_retry_witness:
  "has_l402 (auth_header
     \<lparr>req_headers = [(''authorization'', ''L402 token:00'')], req_params = [],
      req_body = None, req_originalUrl = None, req_url = ''/api/comments'',
      req_method = ''POST''\<rparr>)
   \<and> discourseTollMiddleware
     \<lparr>decode_json = map_of
        [(''token'',
          JObj [(''id'', JStr ''6e340b9cffb37a989ca544e6bb780a2c78901d3fb33738768511a30617afa01d''),
                (''caveats'', JArr []),
                (''signature'',
                 JStr (chain_sig ''test-secret''
                   ''6e340b9cffb37a989ca544e6bb780a2c78901d3fb33738768511a30617afa01d'' []))])],
      encode_json = mac_id, trust_getScore = map_of [],
      wallet_createInvoice = curry (map_of [])\<rparr>
     \<lparr>secret = ''test-secret'', invoiceTtlSecs = 600, defaultDescription = ''Discourse toll'',
      pricing = DEFAULT_PRICING\<rparr>
     \<lparr>agentFrom = None, contextFrom = None, description = None\<rparr>
     new_engine
     \<lparr>req_headers = [(''authorization'', ''L402 token:00'')], req_params = [],
      req_body = None, req_originalUrl = None, req_url = ''/api/comments'',
      req_method = ''POST''\<rparr>
     1700000000000
   = (\<lparr>activity = [(''default'', [(''anonymous'', 1700000000000)])],
       agentLastAction = [(''anonymous'', 1700000000000)]\<rparr>,
      Next (no_flags\<lparr>tollPaid := True, tollPaymentHash :=
        Some ''6e340b9cffb37a989ca544e6bb780a2c78901d3fb33738768511a30617afa01d''\<rparr>))
   \<and> \<lparr>activity = [(''default'', [(''anonymous'', 1700000000000)])],
       agentLastAction = [(''anonymous'', 1700000000000)]\<rparr> \<noteq> new_engine"
proof -
  let ?rt = "\<lparr>decode_json = map_of
        [(''token'',
          JObj [(''id'', JStr ''6e340b9cffb37a989ca544e6bb780a2c78901d3fb33738768511a30617afa01d''),
                (''caveats'', JArr []),
                (''signature'',
                 JStr (chain_sig ''test-secret''
                   ''6e340b9cffb37a989ca544e6bb780a2c78901d3fb33738768511a30617afa01d'' []))])],
      encode_json = mac_id, trust_getScore = map_of [],
      wallet_createInvoice = curry (map_of [])\<rparr>"
  let ?tc = "\<lparr>secret = ''test-secret'', invoiceTtlSecs = 600,
      defaultDescription = ''Discourse toll'', pricing = DEFAULT_PRICING\<rparr>"
  let ?opts = "\<lparr>agentFrom = None, contextFrom = None, description = None\<rparr>"
  let ?req = "\<lparr>req_headers = [(''authorization'', ''L402 token:00'')], req_params = [],
      req_body = None, req_originalUrl = None, req_url = ''/api/comments'',
      req_method = ''POST''\<rparr>"
  let ?st' = "\<lparr>activity = [(''default'', [(''anonymous'', 1700000000000)])],
       agentLastAction = [(''anonymous'', 1700000000000)]\<rparr>"
  let ?mw = "discourseTollMiddleware ?rt ?tc ?opts new_engine ?req 1700000000000"
  have hdr: "auth_header ?req = ''L402 token:00''"
    by (simp add: auth_header_def)
  have l402: "has_l402 (auth_header ?req)"
    unfolding hdr by (simp add: has_l402_def)
  have ids: "agent_of ?req ?opts = ''anonymous''" "context_of ?req ?opts = ''default''"
    by (simp_all add: agent_of_def context_of_def extract_path_def)
  have rec: "record_action new_engine ''anonymous'' ''default'' 1700000000000 = ?st'"
    by (simp add: record_action_def new_engine_def)
  have v: "verifyL402 ?rt ?tc ?opts new_engine (auth_header ?req) ?req 1700000000000
             = Inr (?st', Inr ''6e340b9cffb37a989ca544e6bb780a2c78901d3fb33738768511a30617afa01d'')"
    unfolding hdr verifyL402_def retry_example_header
    by (simp add: decodeMacaroon_def verifyPreimage_zero_byte verifyMacaroon_json_def
          verifyMacaroon_def calculate_state ids rec)
  have out: "?mw = (?st', Next (no_flags\<lparr>tollPaid := True, tollPaymentHash :=
        Some ''6e340b9cffb37a989ca544e6bb780a2c78901d3fb33738768511a30617afa01d''\<rparr>))"
    by (simp only: middleware_with_credentials [OF l402] v sum.case prod.case)
  have sndmw: "snd ?mw = Next (no_flags\<lparr>tollPaid := True, tollPaymentHash :=
        Some ''6e340b9cffb37a989ca544e6bb780a2c78901d3fb33738768511a30617afa01d''\<rparr>)"
    unfolding out by (rule snd_conv)
  have acc: "\<exists>h. snd ?mw = Next (no_flags\<lparr>tollPaid := True, tollPaymentHash := Some h\<rparr>)"
    by (rule exI, rule sndmw)
  have "fst ?mw \<noteq> new_engine"
    by (rule iffD2 [OF pricing_state_changes_only_on_authorized_retry
         [where st = new_engine and rt = ?rt and tc = ?tc and opts = ?opts and req = ?req
            and now = 1700000000000,
          THEN conjunct2, THEN conjunct2, THEN conjunct2, THEN conjunct2, THEN conjunct1]
         conjI [OF l402 acc]])
  then have ne: "?st' \<noteq> new_engine"
    unfolding out fst_conv .
  show ?thesis
    by (intro conjI) (rule l402, rule out, rule ne)
qed

end
